theory Spec2Isabelle
  imports Main "HOL-Library.Sublist"
begin


section \<open>JavaScript strings\<close>

text \<open>
  A JavaScript string is a sequence of UTF-16 code units; \<open>length\<close>, \<open>trim\<close>,
  \<open>startsWith\<close>, \<open>includes\<close> and the regular expressions of the service all work on
  code units. A code unit is modelled as a natural number (below \<open>0x10000\<close> in the
  engine; no definition depends on the bound), a string as a list of them, and \<open>js\<close>
  turns a literal of the source into such a list.
\<close>

type_synonym jstring = "nat list"

definition js :: "string \<Rightarrow> jstring" where
  "js s = map (of_char :: char \<Rightarrow> nat) s"

text \<open>
  The white space of \<open>String.prototype.trim\<close> and of the class \<open>\s\<close>: the WhiteSpace
  and LineTerminator code points of ECMAScript (tab, line feed, vertical tab, form feed,
  carriage return, space, no-break space, the Unicode space separators, line and
  paragraph separator, and the byte order mark).
\<close>

definition isWhiteSpace :: "nat \<Rightarrow> bool" where
  "isWhiteSpace c \<longleftrightarrow>
     c \<in> set [0x09, 0x0A, 0x0B, 0x0C, 0x0D, 0x20, 0xA0, 0x1680, 0x2028, 0x2029,
               0x202F, 0x205F, 0x3000, 0xFEFF]
     \<or> (0x2000 \<le> c \<and> c \<le> 0x200A)"

definition trimStart :: "jstring \<Rightarrow> jstring" where
  "trimStart s = dropWhile isWhiteSpace s"

definition trimEnd :: "jstring \<Rightarrow> jstring" where
  "trimEnd s = rev (dropWhile isWhiteSpace (rev s))"

definition trim :: "jstring \<Rightarrow> jstring" where
  "trim s = trimEnd (trimStart s)"

definition isDigit :: "nat \<Rightarrow> bool" where
  "isDigit c \<longleftrightarrow> 0x30 \<le> c \<and> c \<le> 0x39"

text \<open>
  \<open>String.prototype.toLowerCase\<close>, as far as \<open>handleError\<close> can see it. The lowercased
  message is only searched for needles of ASCII letters and spaces, so what matters is
  which code units become ASCII: the letters A to Z, and the Kelvin sign U+212A, which
  becomes \<open>k\<close>. Every other unit is kept as it is; the engine sends those to units outside
  ASCII too (U+0130 becomes \<open>i\<close> followed by U+0307, which no needle of \<open>handleError\<close>
  can match, none having \<open>i\<close> as its last letter).
\<close>

definition lowerUnit :: "nat \<Rightarrow> nat" where
  "lowerUnit c =
     (if 0x41 \<le> c \<and> c \<le> 0x5A then c + 0x20
      else if c = 0x212A then 0x6B
      else c)"

definition toLowerCase :: "jstring \<Rightarrow> jstring" where
  "toLowerCase s = map lowerUnit s"

definition startsWith :: "jstring \<Rightarrow> jstring \<Rightarrow> bool" where
  "startsWith s p \<longleftrightarrow> take (length p) s = p"

fun includesStr :: "jstring \<Rightarrow> jstring \<Rightarrow> bool" where
  "includesStr [] k = (k = [])"
| "includesStr (c # cs) k = (startsWith (c # cs) k \<or> includesStr cs k)"

text \<open>\<open>s.split("\n")\<close>: the pieces between line feeds; an empty text has one empty line.\<close>

fun split_newline :: "jstring \<Rightarrow> jstring list" where
  "split_newline [] = [[]]"
| "split_newline (c # cs) =
     (if c = 0x0A then [] # split_newline cs
      else (case split_newline cs of
              [] \<Rightarrow> [[c]]
            | l # ls \<Rightarrow> (c # l) # ls))"

text \<open>\<open>xs.join(sep)\<close> on an array of strings.\<close>

fun join :: "jstring \<Rightarrow> jstring list \<Rightarrow> jstring" where
  "join sep [] = []"
| "join sep [x] = x"
| "join sep (x # y # ys) = x @ sep @ join sep (y # ys)"

text \<open>The decimal digits of an integer, as \<open>String(n)\<close> prints an integral number.\<close>

fun digits :: "nat \<Rightarrow> jstring" where
  "digits n = (if n < 10 then [0x30 + n] else digits (n div 10) @ [0x30 + n mod 10])"

declare digits.simps [simp del]

definition showInt :: "int \<Rightarrow> jstring" where
  "showInt i = (if i < 0 then 0x2D # digits (nat (- i)) else digits (nat i))"

section \<open>Errors\<close>

text \<open>
  An \<open>Error\<close> object is its kind and its message; the service reads the message only.
  What a promise rejects with, and so what a \<open>catch\<close> block receives, is any value: an
  error, that is a value with a string for its message, or a value without one (a
  string, a number, \<open>null\<close>, \<open>undefined\<close>, an object with no message), for which the cast
  \<open>error as Error\<close> of the \<open>catch\<close> blocks is wrong.
\<close>

datatype error_kind = Error | SyntaxError | TypeError

datatype js_error = Thrown (kind: error_kind) (message: jstring)

datatype thrown = AnError js_error | NotAnError

definition handleError :: "js_error \<Rightarrow> jstring" where
  "handleError error =
     (let message = toLowerCase (js_error.message error) in
      if includesStr message (js ''api key'') \<or> includesStr message (js ''authentication'') then
        js ''AI service authentication failed. Please check configuration.''
      else if includesStr message (js ''quota'') \<or> includesStr message (js ''rate limit'') then
        js ''AI service rate limit exceeded. Please try again later.''
      else if includesStr message (js ''overloaded'') \<or> includesStr message (js ''unavailable'') then
        js ''The AI service is temporarily overloaded. Please try again shortly.''
      else if includesStr message (js ''blocked'') \<or> includesStr message (js ''safety'') then
        js ''Content was blocked by safety filters.''
      else js_error.message error)"

section \<open>Numbers, JSON values and the engine\<close>

text \<open>
  A number reaches the service as a decimal literal of the reply or as a field of the
  caller's record; the model keeps its decimal value \<open>mantissa * 10 ^ exponent\<close>. What
  the engine does with it (rounding to a double, printing it, testing it against zero)
  belongs to the engine record below.
\<close>

datatype jsnum = Dec (mantissa: int) (exponent: int)

datatype json =
    JNull
  | JBool bool
  | JNum jsnum
  | JStr jstring
  | JArr "json list"
  | JObj "(jstring \<times> json) list"

text \<open>The \<open>TypeError\<close>s a value parsed from JSON can raise in \<open>parseSuggestionResponse\<close>.\<close>

datatype type_error =
    NotAFunction jstring
  | CannotRead jstring
  | NoPrimitiveValue

text \<open>
  What the service takes from the JavaScript engine and its host, and what differs from
  one engine, time zone or locale to the next: \<open>JSON.parse\<close> (\<open>Inl\<close> carries the message
  of its \<open>SyntaxError\<close>), the printing and the truthiness of a number,
  \<open>new Date(s).getFullYear()\<close> (\<open>None\<close> is \<open>NaN\<close>, the year of an invalid date) and
  the wording of a \<open>TypeError\<close>. The functions of the service take the engine as
  their first argument.
\<close>

record engine =
  JSON_parse :: "jstring \<Rightarrow> jstring + json"
  Number_toString :: "jsnum \<Rightarrow> jstring"
  Number_truthy :: "jsnum \<Rightarrow> bool"
  Date_getFullYear :: "jstring \<Rightarrow> int option"
  TypeError_message :: "type_error \<Rightarrow> jstring"

text \<open>
  \<open>s?.key\<close> on a parsed value: an own property of an object (the last one when the
  text repeats a key), \<open>undefined\<close> (\<open>None\<close>) on anything else; no prototype has one of
  the six names the service reads.
\<close>

fun getProp :: "json \<Rightarrow> jstring \<Rightarrow> json option" where
  "getProp (JObj kvs) k = map_of (rev kvs) k"
| "getProp _ k = None"

fun truthy :: "engine \<Rightarrow> json option \<Rightarrow> bool" where
  "truthy rt None = False"
| "truthy rt (Some JNull) = False"
| "truthy rt (Some (JBool b)) = b"
| "truthy rt (Some (JNum n)) = Number_truthy rt n"
| "truthy rt (Some (JStr s)) = (s \<noteq> [])"
| "truthy rt (Some (JArr xs)) = True"
| "truthy rt (Some (JObj kvs)) = True"

text \<open>
  The abstract operation \<open>ToString\<close> on a parsed value. An array prints its elements
  joined by commas, \<open>null\<close> elements as nothing; an object prints as
  \<open>[object Object]\<close> unless it has an own \<open>toString\<close> property, which coming from JSON is
  not callable, and then there is no primitive value to convert to.
\<close>

fun collect :: "(type_error + jstring) list \<Rightarrow> type_error + jstring list" where
  "collect [] = Inr []"
| "collect (Inl e # rs) = Inl e"
| "collect (Inr s # rs) = (case collect rs of Inl e \<Rightarrow> Inl e | Inr ss \<Rightarrow> Inr (s # ss))"

fun ToString :: "engine \<Rightarrow> json \<Rightarrow> type_error + jstring" where
  "ToString rt JNull = Inr (js ''null'')"
| "ToString rt (JBool b) = Inr (if b then js ''true'' else js ''false'')"
| "ToString rt (JNum n) = Inr (Number_toString rt n)"
| "ToString rt (JStr s) = Inr s"
| "ToString rt (JArr xs) =
     (case collect (map (\<lambda>x. if x = JNull then Inr [] else ToString rt x) xs) of
        Inl e \<Rightarrow> Inl e
      | Inr ss \<Rightarrow> Inr (join (js '','') ss))"
| "ToString rt (JObj kvs) =
     (if map_of kvs (js ''toString'') \<noteq> None then Inl NoPrimitiveValue
      else Inr (js ''[object Object]''))"

text \<open>The method calls \<open>v.trim()\<close> and \<open>v.toString()\<close>; \<open>expr\<close> is the callee as written.\<close>

definition call_trim :: "engine \<Rightarrow> jstring \<Rightarrow> json option \<Rightarrow> js_error + jstring" where
  "call_trim rt expr v =
     (case v of
        Some (JStr s) \<Rightarrow> Inr (trim s)
      | None \<Rightarrow> Inl (Thrown TypeError (TypeError_message rt (CannotRead expr)))
      | Some JNull \<Rightarrow> Inl (Thrown TypeError (TypeError_message rt (CannotRead expr)))
      | Some _ \<Rightarrow> Inl (Thrown TypeError (TypeError_message rt (NotAFunction expr))))"

definition call_toString :: "engine \<Rightarrow> jstring \<Rightarrow> json option \<Rightarrow> js_error + jstring" where
  "call_toString rt expr v =
     (case v of
        None \<Rightarrow> Inl (Thrown TypeError (TypeError_message rt (CannotRead expr)))
      | Some JNull \<Rightarrow> Inl (Thrown TypeError (TypeError_message rt (CannotRead expr)))
      | Some (JObj kvs) \<Rightarrow>
          (if map_of kvs (js ''toString'') \<noteq> None
           then Inl (Thrown TypeError (TypeError_message rt (NotAFunction expr)))
           else Inr (js ''[object Object]''))
      | Some x \<Rightarrow>
          (case ToString rt x of
             Inl e \<Rightarrow> Inl (Thrown TypeError (TypeError_message rt e))
           | Inr s \<Rightarrow> Inr s))"

text \<open>
  \<open>this.handleError(error as Error)\<close> in a \<open>catch\<close> block. On a value without a string
  message, \<open>error.message.toLowerCase()\<close> raises a \<open>TypeError\<close> (\<open>Inl\<close>), which leaves the
  \<open>catch\<close> block.
\<close>

definition handleCaught :: "engine \<Rightarrow> thrown \<Rightarrow> js_error + jstring" where
  "handleCaught rt x =
     (case x of
        AnError e \<Rightarrow> Inr (handleError e)
      | NotAnError \<Rightarrow>
          Inl (Thrown TypeError
                 (TypeError_message rt (CannotRead (js ''error.message.toLowerCase'')))))"

section \<open>The data of the service\<close>

record genre =
  id' :: "jsnum option"
  name :: jstring

record named =
  name :: jstring

record suggestion =
  title :: jstring
  year :: jstring
  type :: jstring
  overview :: jstring
  reason :: jstring
  searchKeyword :: jstring

record AIFactsResponse =
  facts :: "jstring list"
  success :: bool
  error :: "jstring option"

record AISuggestionResponse =
  suggestion :: suggestion
  success :: bool
  error :: "jstring option"

text \<open>An optional field of the source is an \<open>option\<close>: \<open>None\<close> is \<open>undefined\<close>.\<close>

record MovieData =
  title :: "jstring option"
  name :: "jstring option"
  release_date :: "jstring option"
  first_air_date :: "jstring option"
  overview :: "jstring option"
  genre_ids :: "jsnum list option"
  vote_average :: "jsnum option"
  id' :: "jsnum option"
  director :: "jstring option"
  cast :: "jstring list option"
  runtime :: "jsnum option"
  genres :: "genre list option"
  production_companies :: "named list option"
  original_language :: "jstring option"
  created_by :: "named list option"
  episode_run_time :: "jsnum list option"
  number_of_seasons :: "jsnum option"
  number_of_episodes :: "jsnum option"
  networks :: "named list option"

definition MODEL_NAME :: jstring where
  "MODEL_NAME = js ''gemini-2.0-flash''"

section \<open>Prompt generation\<close>

text \<open>Truthiness of an optional string, \<open>a || b\<close> on strings, and \<open>${x}\<close> in a template.\<close>

definition truthyStr :: "jstring option \<Rightarrow> bool" where
  "truthyStr a = (case a of None \<Rightarrow> False | Some s \<Rightarrow> s \<noteq> [])"

definition orElse :: "jstring option \<Rightarrow> jstring option \<Rightarrow> jstring option" where
  "orElse a b = (if truthyStr a then a else b)"

definition tplStr :: "jstring option \<Rightarrow> jstring" where
  "tplStr a = (case a of None \<Rightarrow> js ''undefined'' | Some s \<Rightarrow> s)"

definition tplNum :: "engine \<Rightarrow> jsnum option \<Rightarrow> jstring" where
  "tplNum rt a = (case a of None \<Rightarrow> js ''undefined'' | Some n \<Rightarrow> Number_toString rt n)"

definition truthyNum :: "engine \<Rightarrow> jsnum option \<Rightarrow> bool" where
  "truthyNum rt a = (case a of None \<Rightarrow> False | Some n \<Rightarrow> Number_truthy rt n)"

definition LF :: jstring where
  "LF = [0x0A]"

text \<open>
  The constants \<open>isTV\<close>, \<open>title\<close> and \<open>releaseYear\<close> of \<open>createMoviePrompt\<close>. The last is
  a number (the year of the date, \<open>NaN\<close> when the date is invalid) or the string
  \<open>"Unknown"\<close>; \<open>tplYear\<close> is how the template prints it.
\<close>

definition isTV :: "MovieData \<Rightarrow> bool" where
  "isTV data = truthyStr (MovieData.name data)"

definition promptTitle :: "MovieData \<Rightarrow> jstring option" where
  "promptTitle data = (if isTV data then MovieData.name data else MovieData.title data)"

datatype year_value = YearNumber "int option" | YearString jstring

definition yearOf :: "engine \<Rightarrow> jstring option \<Rightarrow> year_value" where
  "yearOf rt date =
     (case date of
        None \<Rightarrow> YearString (js ''Unknown'')
      | Some d \<Rightarrow>
          if d \<noteq> [] then YearNumber (Date_getFullYear rt d)
          else YearString (js ''Unknown''))"

definition releaseYear :: "engine \<Rightarrow> MovieData \<Rightarrow> year_value" where
  "releaseYear rt data =
     (if isTV data then yearOf rt (first_air_date data) else yearOf rt (release_date data))"

fun tplYear :: "year_value \<Rightarrow> jstring" where
  "tplYear (YearNumber None) = js ''NaN''"
| "tplYear (YearNumber (Some y)) = showInt y"
| "tplYear (YearString s) = s"

definition goalLine :: "engine \<Rightarrow> MovieData \<Rightarrow> jstring" where
  \<open>goalLine rt data =
     js ''GOAL: Generate Top 10 most exciting and factual information about "''
     @ tplStr (promptTitle data) @ js ''" ('' @ tplYear (releaseYear rt data) @ js '') - a ''
     @ (if isTV data then js ''TV Series'' else js ''Movie'') @ js ''.''\<close>

definition namesOf :: "named list option \<Rightarrow> jstring" where
  "namesOf xs = (case xs of None \<Rightarrow> [] | Some l \<Rightarrow> join (js '', '') (map named.name l))"

definition hasLength :: "'a list option \<Rightarrow> bool" where
  "hasLength xs = (case xs of None \<Rightarrow> False | Some l \<Rightarrow> l \<noteq> [])"

definition genresText :: "MovieData \<Rightarrow> jstring" where
  "genresText data =
     (case genres data of
        None \<Rightarrow> js ''various''
      | Some gs \<Rightarrow>
          (let joined = join (js '', '') (map genre.name gs)
           in if joined \<noteq> [] then joined else js ''various''))"

definition infoLines :: "engine \<Rightarrow> MovieData \<Rightarrow> jstring list" where
  "infoLines rt data =
     [js ''Basic Info:'',
      js ''- Overview: '' @ tplStr (orElse (MovieData.overview data) (Some (js ''Not available''))),
      js ''- Language: '' @ tplStr (orElse (original_language data) (Some (js ''en''))),
      js ''- Genres: '' @ genresText data,
      js ''- Runtime: '' @
        (if truthyNum rt (runtime data) then tplNum rt (runtime data) @ js '' minutes''
         else js ''not specified''),
      (if hasLength (production_companies data)
       then js ''- Producers: '' @ namesOf (production_companies data) else []),
      (if isTV data \<and> hasLength (created_by data)
       then js ''- Creators: '' @ namesOf (created_by data) else []),
      (if isTV data \<and> hasLength (networks data)
       then js ''- Networks: '' @ namesOf (networks data) else []),
      (if isTV data \<and> truthyNum rt (number_of_seasons data)
       then js ''- Seasons: '' @ tplNum rt (number_of_seasons data)
            @ js '', Episodes: '' @ tplNum rt (number_of_episodes data)
       else [])]"

definition createMoviePrompt :: "engine \<Rightarrow> MovieData \<Rightarrow> jstring" where
  \<open>createMoviePrompt rt data =
     join LF
      ([js ''You are an expert cinematic researcher with deep knowledge of movies and TV shows.'',
        [],
        goalLine rt data,
        [],
        js ''IMPORTANT: Use only your training data knowledge. Focus on well-known, verifiable facts that would be commonly reported.'',
        []]
       @ infoLines rt data @
       [[],
        js ''Requirements:'',
        js ''1. Focus on widely-known, well-documented facts from your training data'',
        js ''2. Format as compelling, single-paragraph facts'',
        js ''3. Include box office/streaming performance if available'',
        js ''4. Cover production stories, cast details, awards, controversies'',
        js ''5. Make each fact attention-grabbing and viral-worthy'',
        js ''6. Ensure accuracy - only include information you're confident about'',
        [],
        js ''Return exactly 10 facts as JSON array:'',
        js ''["Exciting fact 1", "Exciting fact 2", ...]'',
        [],
        js ''Return ONLY the JSON array, no other text.''])\<close>

definition createSuggestionPrompt :: jstring where
  \<open>createSuggestionPrompt =
     join LF
      [js ''You are a film curator recommending hidden gems and underrated titles.'',
       [],
       js ''Recommend one exceptional movie or TV series that deserves more recognition.'',
       [],
       js ''Focus on:'',
       js ''- Hidden gems and cult classics'',
       js ''- International and independent films'',
       js ''- Critically acclaimed but overlooked titles'',
       [],
       js ''Return as JSON:'',
       js ''{'',
       js ''  "title": "Exact title",'',
       js ''  "year": "Release year",'',
       js ''  "type": "movie or series",'',
       js ''  "overview": "2-3 sentence plot summary",'',
       js ''  "reason": "Why this is worth watching",'',
       js ''  "searchKeyword": "Best search term"'',
       js ''}'',
       [],
       js ''Return ONLY the JSON object, no other text.'']\<close>

section \<open>Parsers\<close>

text \<open>
  \<open>s.replace(/^```json\s*/i, "")\<close>: three backquotes and the word \<open>json\<close> in any
  letter case at the very start go, with all white space after them. Without the
  Unicode flag the four letters match their ASCII variants only, which are the units
  \<open>toLowerCase\<close> sends to them.
\<close>

definition stripFenceStart :: "jstring \<Rightarrow> jstring" where
  "stripFenceStart s =
     (if take 3 s = js ''```'' \<and> toLowerCase (take 4 (drop 3 s)) = js ''json''
      then dropWhile isWhiteSpace (drop 7 s)
      else s)"

text \<open>
  \<open>s.replace(/```\s*$/i, "")\<close>: the match is three backquotes followed by white space
  only up to the end of the text. A backquote is no white space, so the only place it
  can start is three units before the trailing white space; the match and all after it
  goes.
\<close>

definition stripFenceEnd :: "jstring \<Rightarrow> jstring" where
  "stripFenceEnd s =
     (let t = trimEnd s
      in if 3 \<le> length t \<and> drop (length t - 3) t = js ''```''
         then take (length t - 3) t
         else s)"

definition cleanResponse :: "jstring \<Rightarrow> jstring" where
  "cleanResponse responseText = trim (stripFenceEnd (stripFenceStart responseText))"

text \<open>\<open>l.replace(/^\d+\.\s*/, "")\<close> and \<open>l.replace(/^[-*...]\s*/, "")\<close>; the class of the
  second holds the hyphen, the asterisk and the three characters U+00E2, U+20AC and
  U+00A2 that stand in the source file.\<close>

definition stripEnumeration :: "jstring \<Rightarrow> jstring" where
  "stripEnumeration l =
     (let rest = dropWhile isDigit l
      in if takeWhile isDigit l \<noteq> [] \<and> take 1 rest = js ''.''
         then dropWhile isWhiteSpace (drop 1 rest)
         else l)"

definition isBullet :: "nat \<Rightarrow> bool" where
  "isBullet c \<longleftrightarrow> c \<in> set [0x2D, 0x2A, 0xE2, 0x20AC, 0xA2]"

definition stripBullet :: "jstring \<Rightarrow> jstring" where
  "stripBullet l =
     (case l of
        [] \<Rightarrow> []
      | c # cs \<Rightarrow> if isBullet c then dropWhile isWhiteSpace cs else l)"

definition isFact :: "json \<Rightarrow> bool" where
  "isFact f = (case f of JStr s \<Rightarrow> 10 < length (trim s) | _ \<Rightarrow> False)"

definition stringOf :: "json \<Rightarrow> jstring" where
  "stringOf f = (case f of JStr s \<Rightarrow> s | _ \<Rightarrow> [])"

definition isFactLine :: "jstring \<Rightarrow> bool" where
  \<open>isFactLine l \<longleftrightarrow> 20 < length l \<and> \<not> startsWith l (js ''{'') \<and> \<not> startsWith l (js ''['')\<close>

definition parseFactsResponse :: "engine \<Rightarrow> jstring \<Rightarrow> jstring list" where
  "parseFactsResponse rt responseText =
     (let cleaned = cleanResponse responseText
      in case JSON_parse rt cleaned of
           Inr parsed \<Rightarrow>
             (case parsed of
                JArr fs \<Rightarrow> take 10 (map stringOf (filter isFact fs))
              | _ \<Rightarrow> [])
         | Inl _ \<Rightarrow>
             take 10
               (map (\<lambda>l. stripBullet (stripEnumeration l))
                 (filter isFactLine
                   (map trim (split_newline responseText)))))"

definition parseSuggestionResponse :: "engine \<Rightarrow> jstring \<Rightarrow> js_error + suggestion" where
  "parseSuggestionResponse rt responseText =
     (let cleaned = cleanResponse responseText
      in case JSON_parse rt cleaned of
           Inl m \<Rightarrow> Inl (Thrown SyntaxError m)
         | Inr s \<Rightarrow>
             if \<not> truthy rt (getProp s (js ''title'')) \<or> \<not> truthy rt (getProp s (js ''year''))
                \<or> \<not> truthy rt (getProp s (js ''type'')) \<or> \<not> truthy rt (getProp s (js ''overview''))
                \<or> \<not> truthy rt (getProp s (js ''reason''))
                \<or> \<not> truthy rt (getProp s (js ''searchKeyword''))
             then Inl (Thrown Error (js ''Invalid suggestion format''))
             else if getProp s (js ''type'') \<noteq> Some (JStr (js ''movie''))
                     \<and> getProp s (js ''type'') \<noteq> Some (JStr (js ''series''))
             then Inl (Thrown Error (js ''Invalid suggestion type''))
             else
               (case call_trim rt (js ''s.title.trim'') (getProp s (js ''title'')) of
                  Inl e \<Rightarrow> Inl e
                | Inr t \<Rightarrow>
               (case call_toString rt (js ''s.year.toString'') (getProp s (js ''year'')) of
                  Inl e \<Rightarrow> Inl e
                | Inr y \<Rightarrow>
               (case call_trim rt (js ''s.overview.trim'') (getProp s (js ''overview'')) of
                  Inl e \<Rightarrow> Inl e
                | Inr ov \<Rightarrow>
               (case call_trim rt (js ''s.reason.trim'') (getProp s (js ''reason'')) of
                  Inl e \<Rightarrow> Inl e
                | Inr re \<Rightarrow>
               (case call_trim rt (js ''s.searchKeyword.trim'') (getProp s (js ''searchKeyword'')) of
                  Inl e \<Rightarrow> Inl e
                | Inr kw \<Rightarrow>
                    Inr \<lparr>suggestion.title = t, suggestion.year = y,
                         suggestion.type = (case getProp s (js ''type'') of
                                   None \<Rightarrow> []
                                 | Some v \<Rightarrow> stringOf v),
                         suggestion.overview = ov, suggestion.reason = re,
                         suggestion.searchKeyword = kw\<rparr>))))))"

section \<open>The endpoint, the timer and the logger\<close>

text \<open>
  The text-generation endpoint is outside the service. A call resolves with a response
  object, whose \<open>text\<close> may be missing (the response itself may be missing too, the
  service tests \<open>response?.text\<close>), or rejects with a value. Which of these happens may
  depend on how many calls came before and on the request. The world records what the
  service did: the requests it sent, in order, the delays it waited for and what it
  logged.
\<close>

record request =
  model :: jstring
  contents :: jstring

datatype response = Response (text': "jstring option")

datatype outcome = Resolved "response option" | Rejected thrown

type_synonym endpoint = "nat \<Rightarrow> request \<Rightarrow> outcome"

datatype log_entry =
    Info jstring "(jstring \<times> jstring) list"
  | Err jstring "(jstring \<times> jstring) list"

record world =
  requests :: "request list"
  waits :: "nat list"
  logs :: "log_entry list"

definition generateContent ::
    "endpoint \<Rightarrow> request \<Rightarrow> world \<Rightarrow> (thrown + response option) \<times> world" where
  "generateContent ep req w =
     (case ep (length (requests w)) req of
        Resolved r \<Rightarrow> (Inr r, w\<lparr>requests := requests w @ [req]\<rparr>)
      | Rejected e \<Rightarrow> (Inl e, w\<lparr>requests := requests w @ [req]\<rparr>))"

definition setTimeout :: "nat \<Rightarrow> world \<Rightarrow> world" where
  "setTimeout delayMs w = w\<lparr>waits := waits w @ [delayMs]\<rparr>"

definition logger_info :: "jstring \<Rightarrow> (jstring \<times> jstring) list \<Rightarrow> world \<Rightarrow> world" where
  "logger_info msg flds w = w\<lparr>logs := logs w @ [Info msg flds]\<rparr>"

definition logger_error :: "jstring \<Rightarrow> (jstring \<times> jstring) list \<Rightarrow> world \<Rightarrow> world" where
  "logger_error msg flds w = w\<lparr>logs := logs w @ [Err msg flds]\<rparr>"

section \<open>Retry wrapper\<close>

function retry ::
    "(world \<Rightarrow> (thrown + 'a) \<times> world) \<Rightarrow> int \<Rightarrow> nat \<Rightarrow> world \<Rightarrow> (thrown + 'a) \<times> world"
where
  "retry fn retries delayMs w =
     (case fn w of
        (Inr v, w1) \<Rightarrow> (Inr v, w1)
      | (Inl err, w1) \<Rightarrow>
          if retries \<le> 0 then (Inl err, w1)
          else retry fn (retries - 1) (delayMs * 2) (setTimeout delayMs w1))"
  by pat_completeness auto
termination
  by (relation "measure (\<lambda>(fn, retries, delayMs, w). nat retries)") auto

declare retry.simps [simp del]

section \<open>API methods\<close>

definition emptySuggestion :: suggestion where
  "emptySuggestion =
     \<lparr>suggestion.title = [], suggestion.year = [], suggestion.type = js ''movie'',
      suggestion.overview = [], suggestion.reason = [], suggestion.searchKeyword = []\<rparr>"

text \<open>
  The body of the \<open>try\<close> block of \<open>generateSuggestion\<close>; \<open>Inl\<close> is what it throws. The
  method itself returns a promise: \<open>Inr\<close> is the result it resolves with, \<open>Inl\<close> the error it
  rejects with, which is the \<open>TypeError\<close> of \<open>handleError\<close> in the \<open>catch\<close> block.
\<close>

definition generateSuggestion_try ::
    "engine \<Rightarrow> endpoint \<Rightarrow> world \<Rightarrow> (thrown + AISuggestionResponse) \<times> world" where
  "generateSuggestion_try rt ep w =
     (let w1 = logger_info (js ''Generating AI suggestion'') [] w
      in case generateContent ep \<lparr>model = MODEL_NAME, contents = createSuggestionPrompt\<rparr> w1 of
           (Inl x, w2) \<Rightarrow> (Inl x, w2)
         | (Inr resp, w2) \<Rightarrow>
             if \<not> truthyStr (case resp of None \<Rightarrow> None | Some r \<Rightarrow> text' r)
             then (Inl (AnError (Thrown Error (js ''Empty response from Gemini API''))), w2)
             else
               (case parseSuggestionResponse rt (tplStr (case resp of None \<Rightarrow> None | Some r \<Rightarrow> text' r)) of
                  Inl e \<Rightarrow> (Inl (AnError e), w2)
                | Inr s \<Rightarrow>
                    (Inr \<lparr>suggestion = s, success = True, error = None\<rparr>, w2)))"

definition generateSuggestion ::
    "engine \<Rightarrow> endpoint \<Rightarrow> world \<Rightarrow> (js_error + AISuggestionResponse) \<times> world" where
  "generateSuggestion rt ep w =
     (case generateSuggestion_try rt ep w of
        (Inr r, w1) \<Rightarrow> (Inr r, w1)
      | (Inl x, w1) \<Rightarrow>
          (case handleCaught rt x of
             Inl e \<Rightarrow> (Inl e, w1)
           | Inr msg \<Rightarrow>
               (Inr \<lparr>suggestion = emptySuggestion, success = False, error = Some msg\<rparr>,
                logger_error (js ''Error generating AI suggestion'') [(js ''error'', msg)] w1)))"

text \<open>The body of the \<open>try\<close> block of \<open>generateFacts\<close>, and the method.\<close>

definition generateFacts_try ::
    "engine \<Rightarrow> endpoint \<Rightarrow> MovieData \<Rightarrow> world \<Rightarrow> (thrown + AIFactsResponse) \<times> world" where
  "generateFacts_try rt ep data w =
     (let title = orElse (MovieData.name data) (MovieData.title data)
      in if \<not> truthyStr title then (Inl (AnError (Thrown Error (js ''Title is required''))), w)
         else
           (let w1 = logger_info (js ''Generating AI facts'') [(js ''title'', tplStr title)] w
            in case retry (generateContent ep
                           \<lparr>model = MODEL_NAME, contents = createMoviePrompt rt data\<rparr>) 2 900 w1 of
                 (Inl x, w2) \<Rightarrow> (Inl x, w2)
               | (Inr resp, w2) \<Rightarrow>
                   if \<not> truthyStr (case resp of None \<Rightarrow> None | Some r \<Rightarrow> text' r)
                   then (Inl (AnError (Thrown Error (js ''Empty response from Gemini API''))), w2)
                   else
                     (let facts = parseFactsResponse rt
                                    (tplStr (case resp of None \<Rightarrow> None | Some r \<Rightarrow> text' r))
                      in if length facts = 0
                         then (Inl (AnError (Thrown Error (js ''No valid facts extracted''))), w2)
                         else (Inr \<lparr>facts = facts, AIFactsResponse.success = True,
                                    AIFactsResponse.error = None\<rparr>, w2))))"

definition generateFacts ::
    "engine \<Rightarrow> endpoint \<Rightarrow> MovieData \<Rightarrow> world \<Rightarrow> (js_error + AIFactsResponse) \<times> world" where
  "generateFacts rt ep data w =
     (case generateFacts_try rt ep data w of
        (Inr r, w1) \<Rightarrow> (Inr r, w1)
      | (Inl x, w1) \<Rightarrow>
          (case handleCaught rt x of
             Inl e \<Rightarrow> (Inl e, w1)
           | Inr msg \<Rightarrow>
               (Inr \<lparr>facts = [], AIFactsResponse.success = False,
                     AIFactsResponse.error = Some msg\<rparr>,
                logger_error (js ''Error generating AI facts'') [(js ''error'', msg)] w1)))"

section \<open>A reference engine\<close>

text \<open>
  One engine to run the service on: a \<open>JSON.parse\<close> that follows the JSON grammar of
  ECMAScript (a lexer, then a pushdown automaton over the tokens), numbers printed and
  tested by their decimal value, a host in the UTC time zone that reads calendar dates
  of the form \<open>YYYY-MM-DD\<close> and nothing else, and error messages in the wording of V8.
  The service is verified for every engine; this one evaluates it on concrete inputs.
\<close>

datatype token =
    TLBrace | TRBrace | TLBracket | TRBracket | TColon | TComma
  | TString jstring | TNumber jsnum | TTrue | TFalse | TNull

definition hexValue :: "nat \<Rightarrow> nat option" where
  "hexValue c =
     (if isDigit c then Some (c - 0x30)
      else if 0x41 \<le> c \<and> c \<le> 0x46 then Some (c - 0x37)
      else if 0x61 \<le> c \<and> c \<le> 0x66 then Some (c - 0x57)
      else None)"

fun hex4 :: "jstring \<Rightarrow> nat option" where
  "hex4 [a, b, c, d] =
     (case (hexValue a, hexValue b, hexValue c, hexValue d) of
        (Some w, Some x, Some y, Some z) \<Rightarrow> Some (((w * 16 + x) * 16 + y) * 16 + z)
      | _ \<Rightarrow> None)"
| "hex4 _ = None"

text \<open>The unit an escape \<open>\e\<close> stands for, \<open>\u\<close> apart.\<close>

definition escapeUnit :: "nat \<Rightarrow> nat option" where
  "escapeUnit e =
     (if e = 0x22 \<or> e = 0x5C \<or> e = 0x2F then Some e
      else if e = 0x62 then Some 0x08
      else if e = 0x66 then Some 0x0C
      else if e = 0x6E then Some 0x0A
      else if e = 0x72 then Some 0x0D
      else if e = 0x74 then Some 0x09
      else None)"

text \<open>
  The body of a string literal, after its opening quote: the string, and how many units
  were read up to and with the closing quote.
\<close>

fun lexString :: "jstring \<Rightarrow> nat \<Rightarrow> jstring \<Rightarrow> (jstring \<times> nat) option" where
  "lexString acc n [] = None"
| "lexString acc n (c # cs) =
     (if c = 0x22 then Some (rev acc, Suc n)
      else if c = 0x5C then
        (case cs of
           [] \<Rightarrow> None
         | e # r \<Rightarrow>
             if e = 0x75 then
               (case hex4 (take 4 r) of
                  None \<Rightarrow> None
                | Some u \<Rightarrow> lexString (u # acc) (n + 6) (drop 4 r))
             else
               (case escapeUnit e of
                  None \<Rightarrow> None
                | Some u \<Rightarrow> lexString (u # acc) (n + 2) r))
      else if c < 0x20 then None
      else lexString (c # acc) (Suc n) cs)"

definition natOfDigits :: "jstring \<Rightarrow> nat" where
  "natOfDigits ds = foldl (\<lambda>a c. a * 10 + (c - 0x30)) 0 ds"

text \<open>
  A number literal: an optional minus, \<open>0\<close> or a digit from 1 to 9 with more digits,
  an optional fraction of at least one digit, an optional exponent of at least one
  digit. Each part gives what it read and the text after it; the result is the decimal
  value of the literal and its length.
\<close>

definition lexInteger :: "jstring \<Rightarrow> (jstring \<times> jstring) option" where
  "lexInteger s =
     (case s of
        [] \<Rightarrow> None
      | c # cs \<Rightarrow>
          if c = 0x30 then Some ([c], cs)
          else if isDigit c then Some (c # takeWhile isDigit cs, dropWhile isDigit cs)
          else None)"

definition lexDigits :: "jstring \<Rightarrow> (jstring \<times> jstring) option" where
  "lexDigits s =
     (if takeWhile isDigit s = [] then None
      else Some (takeWhile isDigit s, dropWhile isDigit s))"

definition lexFraction :: "jstring \<Rightarrow> (jstring \<times> jstring) option" where
  "lexFraction s =
     (case s of
        [] \<Rightarrow> Some ([], s)
      | c # cs \<Rightarrow> if c = 0x2E then lexDigits cs else Some ([], s))"

definition lexExponent :: "jstring \<Rightarrow> (int \<times> jstring) option" where
  "lexExponent s =
     (case s of
        [] \<Rightarrow> Some (0, s)
      | c # cs \<Rightarrow>
          if c = 0x65 \<or> c = 0x45 then
            (case cs of
               [] \<Rightarrow> None
             | d # ds \<Rightarrow>
                 if d = 0x2D then
                   map_option (\<lambda>(e, r). (- int (natOfDigits e), r)) (lexDigits ds)
                 else if d = 0x2B then
                   map_option (\<lambda>(e, r). (int (natOfDigits e), r)) (lexDigits ds)
                 else map_option (\<lambda>(e, r). (int (natOfDigits e), r)) (lexDigits cs))
          else Some (0, s))"

definition lexNumber :: "jstring \<Rightarrow> (jsnum \<times> nat) option" where
  "lexNumber s =
     (case (case s of
              [] \<Rightarrow> (False, s)
            | c # cs \<Rightarrow> if c = 0x2D then (True, cs) else (False, s)) of
        (neg, s1) \<Rightarrow>
     (case lexInteger s1 of
        None \<Rightarrow> None
      | Some (ip, s2) \<Rightarrow>
     (case lexFraction s2 of
        None \<Rightarrow> None
      | Some (fp, s3) \<Rightarrow>
     (case lexExponent s3 of
        None \<Rightarrow> None
      | Some (e, s4) \<Rightarrow>
          Some (Dec (if neg then - int (natOfDigits (ip @ fp)) else int (natOfDigits (ip @ fp)))
                    (e - int (length fp)),
                length s - length s4)))))"

fun tokenize :: "jstring \<Rightarrow> token list option" where
  "tokenize [] = Some []"
| "tokenize (c # cs) =
     (if c = 0x20 \<or> c = 0x09 \<or> c = 0x0A \<or> c = 0x0D then tokenize cs
      else if c = 0x7B then map_option ((#) TLBrace) (tokenize cs)
      else if c = 0x7D then map_option ((#) TRBrace) (tokenize cs)
      else if c = 0x5B then map_option ((#) TLBracket) (tokenize cs)
      else if c = 0x5D then map_option ((#) TRBracket) (tokenize cs)
      else if c = 0x3A then map_option ((#) TColon) (tokenize cs)
      else if c = 0x2C then map_option ((#) TComma) (tokenize cs)
      else if c = 0x22 then
        (case lexString [] 0 cs of
           None \<Rightarrow> None
         | Some (str, k) \<Rightarrow> map_option ((#) (TString str)) (tokenize (drop k cs)))
      else if c = 0x2D \<or> isDigit c then
        (case lexNumber (c # cs) of
           None \<Rightarrow> None
         | Some (num, k) \<Rightarrow> map_option ((#) (TNumber num)) (tokenize (drop (k - 1) cs)))
      else if startsWith (c # cs) (js ''true'') then
        map_option ((#) TTrue) (tokenize (drop 3 cs))
      else if startsWith (c # cs) (js ''false'') then
        map_option ((#) TFalse) (tokenize (drop 4 cs))
      else if startsWith (c # cs) (js ''null'') then
        map_option ((#) TNull) (tokenize (drop 3 cs))
      else None)"

text \<open>
  The automaton: what it expects next, and the stack of the arrays and objects that
  are open, each with its members so far, newest first.
\<close>

datatype expect = Value | ValueOrEnd | KeyOrEnd | Key | Colon | Done json

datatype frame =
    InArray "json list"
  | InObject "(jstring \<times> json) list"
  | InMember "(jstring \<times> json) list" jstring

definition startValue :: "frame list \<Rightarrow> token \<Rightarrow> (expect \<times> frame list) option" where
  "startValue st t =
     (case t of
        TLBracket \<Rightarrow> Some (ValueOrEnd, InArray [] # st)
      | TLBrace \<Rightarrow> Some (KeyOrEnd, InObject [] # st)
      | TString str \<Rightarrow> Some (Done (JStr str), st)
      | TNumber num \<Rightarrow> Some (Done (JNum num), st)
      | TTrue \<Rightarrow> Some (Done (JBool True), st)
      | TFalse \<Rightarrow> Some (Done (JBool False), st)
      | TNull \<Rightarrow> Some (Done JNull, st)
      | _ \<Rightarrow> None)"

definition closeValue :: "json \<Rightarrow> frame list \<Rightarrow> token \<Rightarrow> (expect \<times> frame list) option" where
  "closeValue v st t =
     (case st of
        InArray xs # st' \<Rightarrow>
          (case t of
             TComma \<Rightarrow> Some (Value, InArray (v # xs) # st')
           | TRBracket \<Rightarrow> Some (Done (JArr (rev (v # xs))), st')
           | _ \<Rightarrow> None)
      | InMember kvs k # st' \<Rightarrow>
          (case t of
             TComma \<Rightarrow> Some (Key, InObject ((k, v) # kvs) # st')
           | TRBrace \<Rightarrow> Some (Done (JObj (rev ((k, v) # kvs))), st')
           | _ \<Rightarrow> None)
      | _ \<Rightarrow> None)"

definition startMember :: "frame list \<Rightarrow> token \<Rightarrow> (expect \<times> frame list) option" where
  "startMember st t =
     (case (st, t) of
        (InObject kvs # st', TString k) \<Rightarrow> Some (Colon, InMember kvs k # st')
      | _ \<Rightarrow> None)"

definition step :: "expect \<Rightarrow> frame list \<Rightarrow> token \<Rightarrow> (expect \<times> frame list) option" where
  "step e st t =
     (case e of
        Value \<Rightarrow> startValue st t
      | ValueOrEnd \<Rightarrow>
          (if t = TRBracket then Some (Done (JArr []), tl st) else startValue st t)
      | KeyOrEnd \<Rightarrow>
          (if t = TRBrace then Some (Done (JObj []), tl st) else startMember st t)
      | Key \<Rightarrow> startMember st t
      | Colon \<Rightarrow> (if t = TColon then Some (Value, st) else None)
      | Done v \<Rightarrow> closeValue v st t)"

fun run :: "expect \<Rightarrow> frame list \<Rightarrow> token list \<Rightarrow> json option" where
  "run e st [] = (case (e, st) of (Done v, []) \<Rightarrow> Some v | _ \<Rightarrow> None)"
| "run e st (t # ts) =
     (case step e st t of
        None \<Rightarrow> None
      | Some (e', st') \<Rightarrow> run e' st' ts)"

definition refParse :: "jstring \<Rightarrow> jstring + json" where
  "refParse s =
     (case tokenize s of
        None \<Rightarrow> Inl (js ''Unexpected token in JSON'')
      | Some ts \<Rightarrow>
          (case run Value [] ts of
             None \<Rightarrow> Inl (js ''Unexpected token in JSON'')
           | Some v \<Rightarrow> Inr v))"

text \<open>
  Printing a decimal value the way \<open>Number.prototype.toString\<close> prints the double next
  to it: the digits of an integer, or the integral part, a point and the fraction
  without trailing zeros. That is the engine's output for integers below \<open>2 ^ 53\<close> in
  magnitude and for values of at most 15 significant digits from \<open>1e-6\<close> up to \<open>1e21\<close>
  in magnitude, where no rounding and no exponent notation comes in.
\<close>

definition fractionDigits :: "nat \<Rightarrow> nat \<Rightarrow> jstring" where
  "fractionDigits width f =
     rev (dropWhile (\<lambda>c. c = 0x30)
           (rev (replicate (width - length (digits f)) 0x30 @ digits f)))"

definition refNumberToString :: "jsnum \<Rightarrow> jstring" where
  "refNumberToString n =
     (case n of Dec m e \<Rightarrow>
        if 0 \<le> e then showInt (m * 10 ^ nat e)
        else
          (let p = 10 ^ nat (- e); a = nat \<bar>m\<bar>
           in if a mod p = 0 then showInt (m div int p)
              else (if m < 0 then [0x2D] else []) @ digits (a div p) @ [0x2E]
                   @ fractionDigits (nat (- e)) (a mod p)))"

definition refNumberTruthy :: "jsnum \<Rightarrow> bool" where
  "refNumberTruthy n \<longleftrightarrow> mantissa n \<noteq> 0"

definition daysInMonth :: "nat \<Rightarrow> nat \<Rightarrow> nat" where
  "daysInMonth y m =
     (if m = 2 then (if y mod 4 = 0 \<and> (y mod 100 \<noteq> 0 \<or> y mod 400 = 0) then 29 else 28)
      else if m = 4 \<or> m = 6 \<or> m = 9 \<or> m = 11 then 30
      else 31)"

definition refDateYear :: "jstring \<Rightarrow> int option" where
  "refDateYear s =
     (let y = natOfDigits (take 4 s);
          m = natOfDigits (take 2 (drop 5 s));
          d = natOfDigits (take 2 (drop 8 s))
      in if length s = 10 \<and> list_all isDigit (take 4 s) \<and> take 1 (drop 4 s) = js ''-''
            \<and> list_all isDigit (take 2 (drop 5 s)) \<and> take 1 (drop 7 s) = js ''-''
            \<and> list_all isDigit (take 2 (drop 8 s))
            \<and> 1 \<le> m \<and> m \<le> 12 \<and> 1 \<le> d \<and> d \<le> daysInMonth y m
         then Some (int y)
         else None)"

definition refTypeErrorMessage :: "type_error \<Rightarrow> jstring" where
  "refTypeErrorMessage t =
     (case t of
        NotAFunction expr \<Rightarrow> expr @ js '' is not a function''
      | CannotRead expr \<Rightarrow> js ''Cannot read properties of undefined''
      | NoPrimitiveValue \<Rightarrow> js ''Cannot convert object to primitive value'')"

definition refEngine :: engine where
  "refEngine =
     \<lparr>JSON_parse = refParse,
      Number_toString = refNumberToString,
      Number_truthy = refNumberTruthy,
      Date_getFullYear = refDateYear,
      TypeError_message = refTypeErrorMessage\<rparr>"

section \<open>Notions of the statements\<close>

text \<open>
  A message contains a needle in some letter case when a part of it lowercases to what
  the needle lowercases to.
\<close>

definition containsIgnoringCase :: "jstring \<Rightarrow> jstring \<Rightarrow> bool" where
  "containsIgnoringCase m k \<longleftrightarrow> (\<exists>a u b. m = a @ u @ b \<and> toLowerCase u = toLowerCase k)"

text \<open>
  The empty record \<open>{}\<close>, a world in which nothing has happened yet, and the request
  \<open>generateFacts\<close> sends. The outcome of the \<open>i\<close>-th attempt of a request that starts in world
  \<open>w\<close>, the outcome \<open>retry\<close> ends with (the first attempt of three that resolves, else the third
  rejection) and the number of attempts it makes.
\<close>

definition noMovieData :: MovieData where
  "noMovieData =
     \<lparr>MovieData.title = None, MovieData.name = None, release_date = None, first_air_date = None,
      MovieData.overview = None, genre_ids = None, vote_average = None, MovieData.id' = None,
      director = None, cast = None, runtime = None, genres = None, production_companies = None,
      original_language = None, created_by = None, episode_run_time = None,
      number_of_seasons = None, number_of_episodes = None, networks = None\<rparr>"

definition freshWorld :: world where
  "freshWorld = \<lparr>requests = [], waits = [], logs = []\<rparr>"

definition factsRequest :: "engine \<Rightarrow> MovieData \<Rightarrow> request" where
  "factsRequest rt data = \<lparr>model = MODEL_NAME, contents = createMoviePrompt rt data\<rparr>"

definition attempt :: "endpoint \<Rightarrow> request \<Rightarrow> world \<Rightarrow> nat \<Rightarrow> outcome" where
  "attempt ep req w i = ep (length (requests w) + i) req"

definition finalOutcome :: "endpoint \<Rightarrow> request \<Rightarrow> world \<Rightarrow> outcome" where
  "finalOutcome ep req w =
     (case attempt ep req w 0 of
        Resolved r \<Rightarrow> Resolved r
      | Rejected e1 \<Rightarrow>
          (case attempt ep req w 1 of
             Resolved r \<Rightarrow> Resolved r
           | Rejected e2 \<Rightarrow> attempt ep req w 2))"

definition attempts :: "endpoint \<Rightarrow> request \<Rightarrow> world \<Rightarrow> nat" where
  "attempts ep req w =
     (case attempt ep req w 0 of
        Resolved r \<Rightarrow> 1
      | Rejected e1 \<Rightarrow>
          (case attempt ep req w 1 of
             Resolved r \<Rightarrow> 2
           | Rejected e2 \<Rightarrow> 3))"

definition replyText :: "response option \<Rightarrow> jstring option" where
  "replyText resp = (case resp of None \<Rightarrow> None | Some r \<Rightarrow> text' r)"

definition factsFailure :: "jstring \<Rightarrow> AIFactsResponse" where
  "factsFailure msg = \<lparr>facts = [], AIFactsResponse.success = False, AIFactsResponse.error = Some msg\<rparr>"

definition factsSuccess :: "jstring list \<Rightarrow> AIFactsResponse" where
  "factsSuccess fs = \<lparr>facts = fs, AIFactsResponse.success = True, AIFactsResponse.error = None\<rparr>"

text \<open>Sample data: a film, an endpoint that fails twice and then replies, and one that is down.\<close>

definition inception :: MovieData where
  "inception = noMovieData\<lparr>MovieData.title := Some (js ''Inception''),
                            release_date := Some (js ''2010-07-16'')\<rparr>"

definition flaky :: endpoint where
  \<open>flaky n req =
     (if n < 2 then Rejected (AnError (Thrown Error (js ''503 Service Unavailable'')))
      else Resolved (Some (Response (Some (js ''["The film was shot in six countries."]'')))))\<close>


text \<open>\<open>Array.isArray\<close> on a parsed value, and an endpoint that always replies with one text.\<close>

definition isArray :: "json \<Rightarrow> bool" where
  "isArray v = (case v of JArr fs \<Rightarrow> True | _ \<Rightarrow> False)"

definition replying :: "jstring \<Rightarrow> endpoint" where
  "replying t n req = Resolved (Some (Response (Some t)))"


text \<open>
  The tests of \<open>parseSuggestionResponse\<close> on a parsed value: the six fields are truthy, the
  type is one of the two words, a field is a string, and \<open>s.year.toString()\<close> returns.
\<close>

definition sixTruthy :: "engine \<Rightarrow> json \<Rightarrow> bool" where
  "sixTruthy rt s \<longleftrightarrow>
     truthy rt (getProp s (js ''title'')) \<and> truthy rt (getProp s (js ''year''))
     \<and> truthy rt (getProp s (js ''type'')) \<and> truthy rt (getProp s (js ''overview''))
     \<and> truthy rt (getProp s (js ''reason'')) \<and> truthy rt (getProp s (js ''searchKeyword''))"

definition validType :: "json \<Rightarrow> bool" where
  "validType s \<longleftrightarrow>
     getProp s (js ''type'') = Some (JStr (js ''movie''))
     \<or> getProp s (js ''type'') = Some (JStr (js ''series''))"

definition isString :: "json option \<Rightarrow> bool" where
  "isString v = (case v of Some (JStr x) \<Rightarrow> True | _ \<Rightarrow> False)"

definition yearPrints :: "engine \<Rightarrow> json \<Rightarrow> bool" where
  "yearPrints rt s \<longleftrightarrow>
     \<not> isl (call_toString rt (js ''s.year.toString'') (getProp s (js ''year'')))"

text \<open>Three replies, parsed: the suggestion of the specification, one of type \<open>book\<close>, and
  one whose title is the number 5.\<close>

definition suggestionX :: json where
  "suggestionX =
     JObj [(js ''title'', JStr (js ''X'')), (js ''year'', JNum (Dec 2020 0)),
           (js ''type'', JStr (js ''movie'')), (js ''overview'', JStr (js ''o'')),
           (js ''reason'', JStr (js ''r'')), (js ''searchKeyword'', JStr (js ''k''))]"

definition suggestionBook :: json where
  "suggestionBook =
     JObj [(js ''title'', JStr (js ''X'')), (js ''year'', JNum (Dec 2020 0)),
           (js ''type'', JStr (js ''book'')), (js ''overview'', JStr (js ''o'')),
           (js ''reason'', JStr (js ''r'')), (js ''searchKeyword'', JStr (js ''k''))]"

definition suggestionFive :: json where
  "suggestionFive =
     JObj [(js ''title'', JNum (Dec 5 0)), (js ''year'', JNum (Dec 2020 0)),
           (js ''type'', JStr (js ''movie'')), (js ''overview'', JStr (js ''o'')),
           (js ''reason'', JStr (js ''r'')), (js ''searchKeyword'', JStr (js ''k''))]"

text \<open>
  The prompts \<open>generateFacts\<close> sends in one call: the contents of the requests it adds to
  those of the world. A film whose release date is no date, and a series.
\<close>

definition sentPrompts :: "engine \<Rightarrow> endpoint \<Rightarrow> MovieData \<Rightarrow> world \<Rightarrow> jstring list" where
  "sentPrompts rt ep data w =
     map contents (drop (length (requests w)) (requests (snd (generateFacts rt ep data w))))"

definition badDate :: MovieData where
  "badDate = noMovieData\<lparr>MovieData.title := Some (js ''Inception''),
                          release_date := Some (js ''not a date'')\<rparr>"

definition dark :: MovieData where
  "dark = noMovieData\<lparr>MovieData.name := Some (js ''Dark''),
                       first_air_date := Some (js ''2017-12-01'')\<rparr>"

text \<open>
  The request and the failure result of \<open>generateSuggestion\<close>. Where a fact of a successful
  result comes from: it is a string of the array the reply parsed to, of more than 10
  characters after trimming, or, when the reply did not parse, a line of the reply of
  more than 20 characters after trimming, trimmed and with its markers stripped. An
  endpoint that rejects with an error of empty message, and one that rejects with a value
  that is no error.
\<close>

definition suggestionRequest :: request where
  "suggestionRequest = \<lparr>model = MODEL_NAME, contents = createSuggestionPrompt\<rparr>"

definition suggestionFailure :: "jstring \<Rightarrow> AISuggestionResponse" where
  "suggestionFailure msg =
     \<lparr>suggestion = emptySuggestion, AISuggestionResponse.success = False,
      AISuggestionResponse.error = Some msg\<rparr>"

definition factFrom :: "engine \<Rightarrow> jstring \<Rightarrow> jstring \<Rightarrow> bool" where
  "factFrom rt t f \<longleftrightarrow>
     (\<exists>fs. JSON_parse rt (cleanResponse t) = Inr (JArr fs) \<and> JStr f \<in> set fs
           \<and> 10 < length (trim f))
     \<or> (isl (JSON_parse rt (cleanResponse t))
         \<and> (\<exists>l \<in> set (split_newline t).
               20 < length (trim l) \<and> f = stripBullet (stripEnumeration (trim l))))"

definition silent :: endpoint where
  "silent n req = Rejected (AnError (Thrown Error []))"

definition rude :: endpoint where
  "rude n req = Rejected NotAnError"

section \<open>Lemmas\<close>

subsection \<open>Strings and needles\<close>

lemma js_append: "js (a @ b) = js a @ js b"
  by (simp add: js_def)

lemma includesStr_iff: "includesStr s k \<longleftrightarrow> (\<exists>a b. s = a @ k @ b)"
proof (induction s)
  case Nil
  then show ?case by auto
next
  case (Cons c cs)
  have "startsWith (c # cs) k \<longleftrightarrow> (\<exists>b. c # cs = k @ b)"
    unfolding startsWith_def
    by (metis append_eq_conv_conj append_take_drop_id)
  moreover have "(\<exists>a b. c # cs = a @ k @ b) \<longleftrightarrow> (\<exists>b. c # cs = k @ b) \<or> (\<exists>a b. cs = a @ k @ b)"
  proof
    assume "\<exists>a b. c # cs = a @ k @ b"
    then obtain a b where ab: "c # cs = a @ k @ b" by blast
    show "(\<exists>b. c # cs = k @ b) \<or> (\<exists>a b. cs = a @ k @ b)"
    proof (cases a)
      case Nil
      with ab show ?thesis by auto
    next
      case (Cons x a')
      with ab have "cs = a' @ k @ b" by simp
      then show ?thesis by blast
    qed
  next
    assume "(\<exists>b. c # cs = k @ b) \<or> (\<exists>a b. cs = a @ k @ b)"
    then show "\<exists>a b. c # cs = a @ k @ b"
    proof
      assume "\<exists>b. c # cs = k @ b"
      then obtain b where "c # cs = [] @ k @ b" by auto
      then show ?thesis by blast
    next
      assume "\<exists>a b. cs = a @ k @ b"
      then obtain a b where "c # cs = (c # a) @ k @ b" by auto
      then show ?thesis by blast
    qed
  qed
  ultimately show ?case using Cons.IH by simp
qed

lemma containsIgnoringCase_includes:
  "containsIgnoringCase m k \<longleftrightarrow> includesStr (toLowerCase m) (toLowerCase k)"
proof -
  have "(\<exists>a b. map lowerUnit m = a @ map lowerUnit k @ b)
        \<longleftrightarrow> (\<exists>a u b. m = a @ u @ b \<and> map lowerUnit u = map lowerUnit k)"
    (is "?L \<longleftrightarrow> ?R")
  proof
    assume ?L
    then obtain a b where "map lowerUnit m = a @ (map lowerUnit k @ b)" by auto
    then obtain a' r where m: "m = a' @ r" and r: "map lowerUnit r = map lowerUnit k @ b"
      using map_eq_append_conv [of lowerUnit m a "map lowerUnit k @ b"] by auto
    obtain u b' where "r = u @ b'" and "map lowerUnit u = map lowerUnit k"
      using map_eq_append_conv [of lowerUnit r "map lowerUnit k" b] r by auto
    with m show ?R by blast
  next
    assume ?R
    then obtain a u b where "m = a @ u @ b" "map lowerUnit u = map lowerUnit k" by blast
    then have "map lowerUnit m = map lowerUnit a @ map lowerUnit k @ map lowerUnit b" by simp
    then show ?L by blast
  qed
  then show ?thesis
    by (simp add: containsIgnoringCase_def includesStr_iff toLowerCase_def)
qed

lemma toLowerCase_idem: "toLowerCase (toLowerCase s) = toLowerCase s"
  by (simp add: toLowerCase_def lowerUnit_def)

lemma lower_literals:
  "toLowerCase (js ''api key'') = js ''api key''"
  "toLowerCase (js ''authentication'') = js ''authentication''"
  "toLowerCase (js ''quota'') = js ''quota''"
  "toLowerCase (js ''rate limit'') = js ''rate limit''"
  "toLowerCase (js ''overloaded'') = js ''overloaded''"
  "toLowerCase (js ''unavailable'') = js ''unavailable''"
  "toLowerCase (js ''blocked'') = js ''blocked''"
  "toLowerCase (js ''safety'') = js ''safety''"
  by (simp_all add: toLowerCase_def lowerUnit_def js_def)

lemma containsIgnoringCase_part:
  "containsIgnoringCase m (a @ k @ b) \<Longrightarrow> containsIgnoringCase m k"
  unfolding containsIgnoringCase_includes includesStr_iff toLowerCase_def
  by (metis append.assoc map_append)

subsection \<open>Retrying and the results of generateFacts\<close>

lemma retry_unroll:
  "retry fn 2 900 w =
     (case fn w of
        (Inr v, w1) \<Rightarrow> (Inr v, w1)
      | (Inl e1, w1) \<Rightarrow>
          (case fn (setTimeout 900 w1) of
             (Inr v, w2) \<Rightarrow> (Inr v, w2)
           | (Inl e2, w2) \<Rightarrow> fn (setTimeout 1800 w2)))"
  by (simp add: retry.simps [of fn 2] retry.simps [of fn 1] retry.simps [of fn 0]
        split: prod.splits sum.splits)

lemma retry_generateContent:
  "retry (generateContent ep req) 2 900 w =
     (case finalOutcome ep req w of Resolved r \<Rightarrow> Inr r | Rejected e \<Rightarrow> Inl e,
      w\<lparr>requests := requests w @ replicate (attempts ep req w) req,
        waits := waits w @ take (attempts ep req w - 1) [900, 1800]\<rparr>)"
  by (simp add: retry_unroll generateContent_def setTimeout_def finalOutcome_def attempts_def
        attempt_def numeral_2_eq_2 numeral_3_eq_3 split: outcome.splits)

lemma handleError_own_messages:
  "handleError (Thrown Error (js ''Title is required'')) = js ''Title is required''"
  "handleError (Thrown Error (js ''Empty response from Gemini API'')) = js ''Empty response from Gemini API''"
  "handleError (Thrown Error (js ''No valid facts extracted'')) = js ''No valid facts extracted''"
  "handleError (Thrown Error (js ''Invalid suggestion format'')) = js ''Invalid suggestion format''"
  "handleError (Thrown Error (js ''Invalid suggestion type'')) = js ''Invalid suggestion type''"
  by (simp_all add: handleError_def js_def toLowerCase_def lowerUnit_def startsWith_def)

lemma handleError_nonempty: "message e \<noteq> [] \<Longrightarrow> handleError e \<noteq> []"
  by (simp add: handleError_def Let_def js_def)

lemma handleError_empty: "message e = [] \<Longrightarrow> handleError e = []"
  by (simp add: handleError_def Let_def toLowerCase_def includesStr_iff js_def)

text \<open>What generateFacts returns, by the final outcome of its attempts.\<close>

lemma generateFacts_result:
  "fst (generateFacts rt ep data w) =
     (if \<not> truthyStr (orElse (MovieData.name data) (MovieData.title data))
      then Inr (factsFailure (js ''Title is required''))
      else
        (case finalOutcome ep (factsRequest rt data) w of
           Rejected x \<Rightarrow>
             (case handleCaught rt x of
                Inl e \<Rightarrow> Inl e
              | Inr msg \<Rightarrow> Inr (factsFailure msg))
         | Resolved resp \<Rightarrow>
             if \<not> truthyStr (replyText resp)
             then Inr (factsFailure (js ''Empty response from Gemini API''))
             else if parseFactsResponse rt (tplStr (replyText resp)) = []
             then Inr (factsFailure (js ''No valid facts extracted''))
             else Inr (factsSuccess (parseFactsResponse rt (tplStr (replyText resp))))))"
  by (simp add: generateFacts_def generateFacts_try_def Let_def retry_generateContent
        factsRequest_def [symmetric] replyText_def [symmetric] factsFailure_def factsSuccess_def
        handleCaught_def handleError_own_messages logger_info_def finalOutcome_def attempt_def
        split: outcome.splits thrown.splits)

lemma generateFacts_requests:
  "requests (snd (generateFacts rt ep data w)) =
     (if \<not> truthyStr (orElse (MovieData.name data) (MovieData.title data))
      then requests w
      else requests w @ replicate (attempts ep (factsRequest rt data) w) (factsRequest rt data))"
  by (simp add: generateFacts_def generateFacts_try_def Let_def retry_generateContent
        factsRequest_def [symmetric] logger_info_def logger_error_def attempts_def attempt_def
        handleCaught_def split: outcome.splits sum.splits prod.splits thrown.splits)

subsection \<open>Evaluation on the reference engine\<close>

lemmas string_eval = js_def toLowerCase_def lowerUnit_def startsWith_def trim_def trimStart_def
  trimEnd_def isWhiteSpace_def isDigit_def

lemmas parser_eval = refEngine_def refParse_def hexValue_def escapeUnit_def lexNumber_def
  lexInteger_def lexDigits_def lexFraction_def lexExponent_def
  natOfDigits_def startValue_def closeValue_def startMember_def step_def

lemmas facts_eval = parseFactsResponse_def cleanResponse_def stripFenceStart_def
  stripFenceEnd_def stripEnumeration_def stripBullet_def isBullet_def isFact_def stringOf_def
  isFactLine_def

lemma parseFacts_flaky_reply: \<open>parseFactsResponse refEngine (js ''["The film was shot in six countries."]'')
   = [js ''The film was shot in six countries.'']\<close>
  by (simp add: facts_eval parser_eval string_eval)


lemma facts_of_array:
  "map stringOf (filter isFact fs) = [s. JStr s \<leftarrow> fs, 10 < length (trim s)]"
  by (induction fs) (auto simp: isFact_def stringOf_def split: json.splits)

subsection \<open>The steps of parseSuggestionResponse\<close>

lemma call_trim_Inr: "call_trim rt e v = Inr x \<longleftrightarrow> (\<exists>s. v = Some (JStr s) \<and> x = trim s)"
  by (auto simp: call_trim_def split: option.splits json.splits)

lemma call_trim_isl: "isl (call_trim rt e v) \<longleftrightarrow> \<not> isString v"
  by (auto simp: call_trim_def isString_def split: option.splits json.splits)

lemma call_toString_simps:
  "call_toString rt e (Some (JNum n)) = Inr (Number_toString rt n)"
  "call_toString rt e (Some (JStr ys)) = Inr ys"
  by (simp_all add: call_toString_def)

lemma parseSuggestion_unfold:
  "JSON_parse rt (cleanResponse t) = Inr s \<Longrightarrow>
   parseSuggestionResponse rt t =
     (if \<not> sixTruthy rt s then Inl (Thrown Error (js ''Invalid suggestion format''))
      else if \<not> validType s then Inl (Thrown Error (js ''Invalid suggestion type''))
      else
        (case call_trim rt (js ''s.title.trim'') (getProp s (js ''title'')) of
           Inl e \<Rightarrow> Inl e
         | Inr ti \<Rightarrow>
        (case call_toString rt (js ''s.year.toString'') (getProp s (js ''year'')) of
           Inl e \<Rightarrow> Inl e
         | Inr y \<Rightarrow>
        (case call_trim rt (js ''s.overview.trim'') (getProp s (js ''overview'')) of
           Inl e \<Rightarrow> Inl e
         | Inr ov \<Rightarrow>
        (case call_trim rt (js ''s.reason.trim'') (getProp s (js ''reason'')) of
           Inl e \<Rightarrow> Inl e
         | Inr re \<Rightarrow>
        (case call_trim rt (js ''s.searchKeyword.trim'') (getProp s (js ''searchKeyword'')) of
           Inl e \<Rightarrow> Inl e
         | Inr kw \<Rightarrow>
             Inr \<lparr>suggestion.title = ti, suggestion.year = y,
                  suggestion.type = (case getProp s (js ''type'') of
                                       None \<Rightarrow> [] | Some v \<Rightarrow> stringOf v),
                  suggestion.overview = ov, suggestion.reason = re,
                  suggestion.searchKeyword = kw\<rparr>))))))"
  unfolding parseSuggestionResponse_def sixTruthy_def validType_def Let_def
  by (simp only: sum.case de_Morgan_conj de_Morgan_disj not_not if_True if_False split: if_splits)

lemma parseSuggestion_success_iff:
  assumes "JSON_parse rt (cleanResponse t) = Inr s"
  shows "(\<not> isl (parseSuggestionResponse rt t)) \<longleftrightarrow>
           sixTruthy rt s \<and> validType s
           \<and> isString (getProp s (js ''title'')) \<and> yearPrints rt s
           \<and> isString (getProp s (js ''overview'')) \<and> isString (getProp s (js ''reason''))
           \<and> isString (getProp s (js ''searchKeyword''))"
proof -
  have l: "\<And>e v x. call_trim rt e v = Inl x \<Longrightarrow> \<not> isString v"
    and r: "\<And>e v x. call_trim rt e v = Inr x \<Longrightarrow> isString v"
    using call_trim_isl by (metis sum.disc(1), metis sum.disc(2))
  show ?thesis
    unfolding parseSuggestion_unfold [OF assms] yearPrints_def
    by (auto split: sum.splits dest: l r)
qed


lemma parse_suggestionX:
  \<open>JSON_parse refEngine (cleanResponse (js ''{"title":"X","year":2020,"type":"movie","overview":"o","reason":"r","searchKeyword":"k"}''))
     = Inr suggestionX\<close>
  by (simp add: suggestionX_def cleanResponse_def stripFenceStart_def stripFenceEnd_def
        parser_eval string_eval)

lemma parse_suggestionBook:
  \<open>JSON_parse refEngine (cleanResponse (js ''{"title":"X","year":2020,"type":"book","overview":"o","reason":"r","searchKeyword":"k"}''))
     = Inr suggestionBook\<close>
  by (simp add: suggestionBook_def cleanResponse_def stripFenceStart_def stripFenceEnd_def
        parser_eval string_eval)

lemma parse_suggestionFive:
  \<open>JSON_parse refEngine (cleanResponse (js ''{"title":5,"year":2020,"type":"movie","overview":"o","reason":"r","searchKeyword":"k"}''))
     = Inr suggestionFive\<close>
  by (simp add: suggestionFive_def cleanResponse_def stripFenceStart_def stripFenceEnd_def
        parser_eval string_eval)

lemma parse_truncated:
  \<open>JSON_parse refEngine (cleanResponse (js ''{"title":"X","year":2020,''))
     = Inl (js ''Unexpected token in JSON'')\<close>
  by (simp add: cleanResponse_def stripFenceStart_def stripFenceEnd_def parser_eval string_eval)

subsection \<open>The prompt and its year\<close>

lemma goalLine_in_prompt: "includesStr (createMoviePrompt rt data) (goalLine rt data)"
  unfolding includesStr_iff createMoviePrompt_def
  by (simp, metis append.assoc)

lemma sentPrompts_eq:
  "sentPrompts rt ep data w =
     (if \<not> truthyStr (orElse (MovieData.name data) (MovieData.title data)) then []
      else replicate (attempts ep (factsRequest rt data) w) (createMoviePrompt rt data))"
  by (simp add: sentPrompts_def generateFacts_requests factsRequest_def)

lemma attempts_pos: "0 < attempts ep req w"
  by (simp add: attempts_def split: outcome.splits)

lemma releaseYear_rendering:
  "tplYear (releaseYear rt data) =
     (case (if isTV data then first_air_date data else release_date data) of
        None \<Rightarrow> js ''Unknown''
      | Some d \<Rightarrow>
          if d = [] then js ''Unknown''
          else (case Date_getFullYear rt d of
                  None \<Rightarrow> js ''NaN''
                | Some y \<Rightarrow> showInt y))"
  by (simp add: releaseYear_def yearOf_def split: option.splits)

lemma invalid_date_year:
  "Date_getFullYear rt d = None \<Longrightarrow> d \<noteq> [] \<Longrightarrow>
     tplYear (yearOf rt (Some d)) = js ''NaN''"
  by (simp add: yearOf_def)

lemma sent_dark:
  \<open>sentPrompts refEngine (replying (js ''[]'')) dark freshWorld = [createMoviePrompt refEngine dark]\<close>
  by (simp add: sentPrompts_eq attempts_def attempt_def replying_def dark_def noMovieData_def
        orElse_def truthyStr_def js_def)

lemma sent_inception:
  \<open>sentPrompts refEngine (replying (js ''[]'')) inception freshWorld
     = [createMoviePrompt refEngine inception]\<close>
  by (simp add: sentPrompts_eq attempts_def attempt_def replying_def inception_def noMovieData_def
        orElse_def truthyStr_def js_def)

lemma year_2017: "tplYear (yearOf refEngine (Some (js ''2017-12-01''))) = js ''2017''"
  by (simp add: yearOf_def refEngine_def refDateYear_def daysInMonth_def natOfDigits_def
        showInt_def digits.simps string_eval)

lemma year_2010: "tplYear (yearOf refEngine (Some (js ''2010-07-16''))) = js ''2010''"
  by (simp add: yearOf_def refEngine_def refDateYear_def daysInMonth_def natOfDigits_def
        showInt_def digits.simps string_eval)

subsection \<open>The results and where their payload comes from\<close>

lemma generateSuggestion_result:
  "fst (generateSuggestion rt ep w) =
     (case ep (length (requests w)) suggestionRequest of
        Rejected x \<Rightarrow>
          (case handleCaught rt x of
             Inl e \<Rightarrow> Inl e
           | Inr msg \<Rightarrow> Inr (suggestionFailure msg))
      | Resolved resp \<Rightarrow>
          if \<not> truthyStr (replyText resp)
          then Inr (suggestionFailure (js ''Empty response from Gemini API''))
          else
            (case parseSuggestionResponse rt (tplStr (replyText resp)) of
               Inl e \<Rightarrow> Inr (suggestionFailure (handleError e))
             | Inr s \<Rightarrow>
                 Inr \<lparr>suggestion = s, AISuggestionResponse.success = True,
                      AISuggestionResponse.error = None\<rparr>))"
  by (simp add: generateSuggestion_def generateSuggestion_try_def Let_def generateContent_def
        suggestionRequest_def [symmetric] replyText_def [symmetric] suggestionFailure_def
        handleCaught_def handleError_own_messages logger_info_def
        split: outcome.splits sum.splits thrown.splits)

lemma empty_reply:
  "\<not> truthyStr (replyText resp) \<longleftrightarrow>
     resp = None \<or> resp = Some (Response None) \<or> resp = Some (Response (Some []))"
proof (cases resp)
  case None
  then show ?thesis by (simp add: truthyStr_def replyText_def)
next
  case (Some x)
  then show ?thesis
    by (cases x) (auto simp: truthyStr_def replyText_def split: option.splits)
qed

lemma full_reply:
  "truthyStr (replyText resp) \<longleftrightarrow> (\<exists>t. resp = Some (Response (Some t)) \<and> t \<noteq> [])"
proof (cases resp)
  case None
  then show ?thesis by (simp add: truthyStr_def replyText_def)
next
  case (Some x)
  then show ?thesis
    by (cases x) (auto simp: truthyStr_def replyText_def split: option.splits)
qed

lemma finalOutcome_Rejected:
  "finalOutcome ep req w = Rejected e \<Longrightarrow> \<exists>n. ep n req = Rejected e"
  by (auto simp: finalOutcome_def attempt_def split: outcome.splits)

lemma length_parseFacts: "length (parseFactsResponse rt t) \<le> 10"
  by (simp add: parseFactsResponse_def split: sum.splits json.splits)

lemma parseFacts_factFrom:
  assumes "f \<in> set (parseFactsResponse rt t)"
  shows "factFrom rt t f"
proof (cases "JSON_parse rt (cleanResponse t)")
  case (Inl m)
  with assms have "f \<in> set (take 10 (map (\<lambda>l. stripBullet (stripEnumeration l))
                      (filter isFactLine (map trim (split_newline t)))))"
    by (simp add: parseFactsResponse_def)
  then have "f \<in> set (map (\<lambda>l. stripBullet (stripEnumeration l))
                      (filter isFactLine (map trim (split_newline t))))"
    by (rule in_set_takeD)
  then obtain l where "l \<in> set (split_newline t)" "isFactLine (trim l)"
      "f = stripBullet (stripEnumeration (trim l))"
    by auto
  with Inl show ?thesis
    by (auto simp: factFrom_def isFactLine_def)
next
  case (Inr v)
  show ?thesis
  proof (cases v)
    case (JArr fs)
    with Inr assms have "f \<in> set (take 10 (map stringOf (filter isFact fs)))"
      by (simp add: parseFactsResponse_def)
    then have "f \<in> set (map stringOf (filter isFact fs))"
      by (rule in_set_takeD)
    then obtain x where x: "x \<in> set fs" "isFact x" "f = stringOf x"
      by auto
    then have "x = JStr f" "10 < length (trim f)"
      by (auto simp: isFact_def stringOf_def split: json.splits)
    with x(1) Inr JArr show ?thesis
      by (auto simp: factFrom_def)
  qed (use Inr assms in \<open>simp_all add: parseFactsResponse_def\<close>)
qed

lemma call_trim_Inl:
  "call_trim rt e v = Inl x \<Longrightarrow> \<exists>te. x = Thrown TypeError (TypeError_message rt te)"
  by (auto simp: call_trim_def split: option.splits json.splits)

lemma call_toString_Inl:
  "call_toString rt e v = Inl x \<Longrightarrow> \<exists>te. x = Thrown TypeError (TypeError_message rt te)"
  by (auto simp: call_toString_def split: option.splits json.splits sum.splits if_splits)

lemma parseSuggestion_error_message:
  assumes "\<forall>s m. JSON_parse rt s = Inl m \<longrightarrow> m \<noteq> []"
      and "\<forall>x. TypeError_message rt x \<noteq> []"
      and "parseSuggestionResponse rt t = Inl e"
  shows "message e \<noteq> []"
proof (cases "JSON_parse rt (cleanResponse t)")
  case (Inl m)
  with assms show ?thesis
    by (auto simp: parseSuggestionResponse_def)
next
  case (Inr s)
  have lit: "js ''Invalid suggestion format'' \<noteq> []" "js ''Invalid suggestion type'' \<noteq> []"
    by (simp_all add: js_def)
  from assms(3) show ?thesis
    unfolding parseSuggestion_unfold [OF Inr]
    using assms(2) lit
    by (auto split: if_splits sum.splits dest!: call_trim_Inl call_toString_Inl)
qed

lemma parseSuggestion_Inr:
  assumes "parseSuggestionResponse rt t = Inr r"
  shows "\<exists>s ti ov re kw.
           JSON_parse rt (cleanResponse t) = Inr s \<and> sixTruthy rt s
           \<and> getProp s (js ''title'') = Some (JStr ti)
           \<and> getProp s (js ''overview'') = Some (JStr ov)
           \<and> getProp s (js ''reason'') = Some (JStr re)
           \<and> getProp s (js ''searchKeyword'') = Some (JStr kw)
           \<and> getProp s (js ''type'') = Some (JStr (suggestion.type r))
           \<and> (suggestion.type r = js ''movie'' \<or> suggestion.type r = js ''series'')
           \<and> call_toString rt (js ''s.year.toString'') (getProp s (js ''year''))
               = Inr (suggestion.year r)
           \<and> suggestion.title r = trim ti \<and> suggestion.overview r = trim ov
           \<and> suggestion.reason r = trim re \<and> suggestion.searchKeyword r = trim kw"
proof (cases "JSON_parse rt (cleanResponse t)")
  case (Inl m)
  with assms show ?thesis
    by (simp add: parseSuggestionResponse_def)
next
  case (Inr s)
  from assms show ?thesis
    unfolding parseSuggestion_unfold [OF Inr]
    by (intro exI [of _ s])
       (auto simp: Inr call_trim_Inr validType_def stringOf_def split: if_splits sum.splits)
qed


lemma refEngine_messages:
  "\<forall>s m. JSON_parse refEngine s = Inl m \<longrightarrow> m \<noteq> []"
  "\<forall>x. TypeError_message refEngine x \<noteq> []"
  by (auto simp: refEngine_def refParse_def refTypeErrorMessage_def js_def
        split: option.splits type_error.splits)

lemma flaky_messages:
  "\<forall>n req x. flaky n req = Rejected x \<longrightarrow> (\<exists>e. x = AnError e \<and> message e \<noteq> [])"
  by (auto simp: flaky_def js_def split: if_splits)

lemma parse_blank_suggestion:
  \<open>parseSuggestionResponse refEngine
     (js ''{"title":" ","year":[],"type":"movie","overview":"o","reason":"r","searchKeyword":"k"}'')
   = Inr \<lparr>suggestion.title = [], suggestion.year = [], suggestion.type = js ''movie'',
          suggestion.overview = js ''o'', suggestion.reason = js ''r'',
          suggestion.searchKeyword = js ''k''\<rparr>\<close>
  by (simp add: parseSuggestionResponse_def cleanResponse_def stripFenceStart_def
        stripFenceEnd_def call_trim_def call_toString_def stringOf_def parser_eval string_eval)

lemma parse_short_fact:
  "parseFactsResponse refEngine (js ''1.                  abc'') = [js ''abc'']"
  by (simp add: facts_eval parser_eval string_eval)

subsection \<open>Lines, markers and trimming\<close>














section \<open>The results of the two operations\<close>

text \<open>
  Claim C1, as amended. Suppose that what the endpoint rejects with is an error. Then
  \<open>generateFacts\<close> and \<open>generateSuggestion\<close> resolve with a result, for every input.

  A result with \<open>success = false\<close> has the empty payload: no facts; the placeholder
  suggestion, whose fields are empty strings but for its type, which is \<open>movie\<close>. Its error
  is the normalised message of the failure that took place, which for \<open>generateFacts\<close> is
  the missing title, the rejection that ended the attempts, the empty reply or the reply
  without facts, and for \<open>generateSuggestion\<close> the rejection of the endpoint, the empty
  reply or the error of \<open>parseSuggestionResponse\<close> on the reply. The normalised message is
  empty only when the message of the failure is.

  A result with \<open>success = true\<close> has no error, and its payload is what the parser made of
  the text of the reply that ended the attempts: from 1 to 10 facts, each a string of the
  reply's array of more than 10 characters after trimming or a trimmed line of the reply of
  more than 20 characters with its markers stripped; a suggestion whose reply had the six
  fields truthy, the type \<open>movie\<close> or \<open>series\<close>, and whose title, overview, reason and
  search keyword are the reply's strings trimmed and whose year is the reply's year as a
  string.
\<close>

theorem results_invariant:
  assumes "\<forall>n req. ep n req \<noteq> Rejected NotAnError"
  shows
    \<open>\<exists>F S.
       fst (generateFacts rt ep data w) = Inr F
     \<and> fst (generateSuggestion rt ep w) = Inr S
     \<and> (\<not> AIFactsResponse.success F \<longrightarrow>
          facts F = []
        \<and> (\<exists>e. AIFactsResponse.error F = Some (handleError e)
              \<and> (handleError e = [] \<longleftrightarrow> message e = [])
              \<and> (if \<not> truthyStr (orElse (MovieData.name data) (MovieData.title data))
                  then e = Thrown Error (js ''Title is required'')
                  else finalOutcome ep (factsRequest rt data) w = Rejected (AnError e)
                     \<or> (finalOutcome ep (factsRequest rt data) w
                           \<in> {Resolved None, Resolved (Some (Response None)),
                               Resolved (Some (Response (Some [])))}
                         \<and> e = Thrown Error (js ''Empty response from Gemini API''))
                     \<or> (\<exists>t. finalOutcome ep (factsRequest rt data) w
                               = Resolved (Some (Response (Some t)))
                             \<and> t \<noteq> [] \<and> parseFactsResponse rt t = []
                             \<and> e = Thrown Error (js ''No valid facts extracted'')))))
     \<and> (AIFactsResponse.success F \<longrightarrow>
          AIFactsResponse.error F = None
        \<and> truthyStr (orElse (MovieData.name data) (MovieData.title data))
        \<and> (\<exists>t. finalOutcome ep (factsRequest rt data) w = Resolved (Some (Response (Some t)))
              \<and> t \<noteq> [] \<and> facts F = parseFactsResponse rt t)
        \<and> 1 \<le> length (facts F) \<and> length (facts F) \<le> 10
        \<and> (\<forall>f \<in> set (facts F).
              \<exists>t. finalOutcome ep (factsRequest rt data) w = Resolved (Some (Response (Some t)))
                \<and> factFrom rt t f))
     \<and> (\<not> AISuggestionResponse.success S \<longrightarrow>
          suggestion S =
            \<lparr>suggestion.title = [], suggestion.year = [], suggestion.type = js ''movie'',
             suggestion.overview = [], suggestion.reason = [], suggestion.searchKeyword = []\<rparr>
        \<and> (\<exists>e. AISuggestionResponse.error S = Some (handleError e)
              \<and> (handleError e = [] \<longleftrightarrow> message e = [])
              \<and> (ep (length (requests w)) suggestionRequest = Rejected (AnError e)
                  \<or> (ep (length (requests w)) suggestionRequest
                        \<in> {Resolved None, Resolved (Some (Response None)),
                            Resolved (Some (Response (Some [])))}
                      \<and> e = Thrown Error (js ''Empty response from Gemini API''))
                  \<or> (\<exists>t. ep (length (requests w)) suggestionRequest
                            = Resolved (Some (Response (Some t)))
                          \<and> t \<noteq> [] \<and> parseSuggestionResponse rt t = Inl e))))
     \<and> (AISuggestionResponse.success S \<longrightarrow>
          AISuggestionResponse.error S = None
        \<and> (\<exists>t s ti ov re kw.
              ep (length (requests w)) suggestionRequest = Resolved (Some (Response (Some t)))
              \<and> t \<noteq> []
              \<and> JSON_parse rt (cleanResponse t) = Inr s \<and> sixTruthy rt s
              \<and> getProp s (js ''title'') = Some (JStr ti)
              \<and> getProp s (js ''overview'') = Some (JStr ov)
              \<and> getProp s (js ''reason'') = Some (JStr re)
              \<and> getProp s (js ''searchKeyword'') = Some (JStr kw)
              \<and> getProp s (js ''type'') = Some (JStr (suggestion.type (suggestion S)))
              \<and> (suggestion.type (suggestion S) = js ''movie''
                  \<or> suggestion.type (suggestion S) = js ''series'')
              \<and> call_toString rt (js ''s.year.toString'') (getProp s (js ''year''))
                  = Inr (suggestion.year (suggestion S))
              \<and> suggestion.title (suggestion S) = trim ti
              \<and> suggestion.overview (suggestion S) = trim ov
              \<and> suggestion.reason (suggestion S) = trim re
              \<and> suggestion.searchKeyword (suggestion S) = trim kw))\<close>
proof -
  let ?title = "truthyStr (orElse (MovieData.name data) (MovieData.title data))"
  let ?out = "finalOutcome ep (factsRequest rt data) w"
  let ?rep = "ep (length (requests w)) suggestionRequest"
  have own: "handleError (Thrown Error (js ''Title is required'')) \<noteq> []"
    "handleError (Thrown Error (js ''Empty response from Gemini API'')) \<noteq> []"
    "handleError (Thrown Error (js ''No valid facts extracted'')) \<noteq> []"
    "js ''Title is required'' \<noteq> []" "js ''Empty response from Gemini API'' \<noteq> []"
    "js ''No valid facts extracted'' \<noteq> []"
    by (simp_all add: handleError_own_messages) (simp_all add: js_def)
  have norm: "handleError e = [] \<longleftrightarrow> message e = []" for e
    using handleError_nonempty [of e] handleError_empty [of e] by blast
  have no: "?out \<noteq> Rejected NotAnError"
    using assms by (auto simp: finalOutcome_def attempt_def split: outcome.splits)
  have no': "?rep \<noteq> Rejected NotAnError"
    using assms by simp
  text \<open>The facts.\<close>
  have facts: \<open>\<exists>F. fst (generateFacts rt ep data w) = Inr F
     \<and> (\<not> AIFactsResponse.success F \<longrightarrow>
          facts F = []
        \<and> (\<exists>e. AIFactsResponse.error F = Some (handleError e)
              \<and> (handleError e = [] \<longleftrightarrow> message e = [])
              \<and> (if \<not> ?title
                  then e = Thrown Error (js ''Title is required'')
                  else ?out = Rejected (AnError e)
                     \<or> (?out \<in> {Resolved None, Resolved (Some (Response None)),
                               Resolved (Some (Response (Some [])))}
                         \<and> e = Thrown Error (js ''Empty response from Gemini API''))
                     \<or> (\<exists>t. ?out = Resolved (Some (Response (Some t)))
                             \<and> t \<noteq> [] \<and> parseFactsResponse rt t = []
                             \<and> e = Thrown Error (js ''No valid facts extracted'')))))
     \<and> (AIFactsResponse.success F \<longrightarrow>
          AIFactsResponse.error F = None
        \<and> ?title
        \<and> (\<exists>t. ?out = Resolved (Some (Response (Some t)))
              \<and> t \<noteq> [] \<and> facts F = parseFactsResponse rt t)
        \<and> 1 \<le> length (facts F) \<and> length (facts F) \<le> 10
        \<and> (\<forall>f \<in> set (facts F).
              \<exists>t. ?out = Resolved (Some (Response (Some t))) \<and> factFrom rt t f))\<close>
  proof (cases ?title)
    case False
    then have "fst (generateFacts rt ep data w) = Inr (factsFailure (js ''Title is required''))"
      by (simp add: generateFacts_result)
    with False own norm show ?thesis
      by (auto simp: factsFailure_def handleError_own_messages
            intro!: exI [of _ "Thrown Error (js ''Title is required'')"])
  next
    case title: True
    show ?thesis
    proof (cases ?out)
      case (Rejected x)
      with no obtain e where x: "x = AnError e"
        by (cases x) auto
      have "fst (generateFacts rt ep data w) = Inr (factsFailure (handleError e))"
        using title Rejected x by (simp add: generateFacts_result handleCaught_def)
      with title Rejected x norm show ?thesis
        by (auto simp: factsFailure_def intro!: exI [of _ e])
    next
      case (Resolved resp)
      show ?thesis
      proof (cases "truthyStr (replyText resp)")
        case False
        then have r: "resp = None \<or> resp = Some (Response None) \<or> resp = Some (Response (Some []))"
          by (simp add: empty_reply)
        have "fst (generateFacts rt ep data w)
               = Inr (factsFailure (js ''Empty response from Gemini API''))"
          using title Resolved False by (simp add: generateFacts_result)
        with title Resolved r own norm show ?thesis
          by (auto simp: factsFailure_def handleError_own_messages
                intro!: exI [of _ "Thrown Error (js ''Empty response from Gemini API'')"])
      next
        case True
        then obtain t where t: "resp = Some (Response (Some t))" "t \<noteq> []"
          by (auto simp: full_reply)
        then have tt: "tplStr (replyText resp) = t"
          by (simp add: tplStr_def replyText_def)
        show ?thesis
        proof (cases "parseFactsResponse rt t = []")
          case e: True
          have "fst (generateFacts rt ep data w)
                 = Inr (factsFailure (js ''No valid facts extracted''))"
            using title Resolved True e tt by (simp add: generateFacts_result)
          with title Resolved t e own norm show ?thesis
            by (auto simp: factsFailure_def handleError_own_messages
                  intro!: exI [of _ "Thrown Error (js ''No valid facts extracted'')"])
        next
          case ne: False
          have F: "fst (generateFacts rt ep data w) = Inr (factsSuccess (parseFactsResponse rt t))"
            using title Resolved True ne tt by (simp add: generateFacts_result)
          have l: "1 \<le> length (parseFactsResponse rt t)"
            using ne by (cases "parseFactsResponse rt t") simp_all
          have "\<forall>f \<in> set (parseFactsResponse rt t). factFrom rt t f"
            using parseFacts_factFrom by blast
          with F title Resolved t l length_parseFacts [of rt t] show ?thesis
            by (auto simp: factsSuccess_def)
        qed
      qed
    qed
  qed
  text \<open>The suggestion.\<close>
  have sugg: \<open>\<exists>S. fst (generateSuggestion rt ep w) = Inr S
     \<and> (\<not> AISuggestionResponse.success S \<longrightarrow>
          suggestion S =
            \<lparr>suggestion.title = [], suggestion.year = [], suggestion.type = js ''movie'',
             suggestion.overview = [], suggestion.reason = [], suggestion.searchKeyword = []\<rparr>
        \<and> (\<exists>e. AISuggestionResponse.error S = Some (handleError e)
              \<and> (handleError e = [] \<longleftrightarrow> message e = [])
              \<and> (?rep = Rejected (AnError e)
                  \<or> (?rep \<in> {Resolved None, Resolved (Some (Response None)),
                            Resolved (Some (Response (Some [])))}
                      \<and> e = Thrown Error (js ''Empty response from Gemini API''))
                  \<or> (\<exists>t. ?rep = Resolved (Some (Response (Some t)))
                          \<and> t \<noteq> [] \<and> parseSuggestionResponse rt t = Inl e))))
     \<and> (AISuggestionResponse.success S \<longrightarrow>
          AISuggestionResponse.error S = None
        \<and> (\<exists>t s ti ov re kw.
              ?rep = Resolved (Some (Response (Some t)))
              \<and> t \<noteq> []
              \<and> JSON_parse rt (cleanResponse t) = Inr s \<and> sixTruthy rt s
              \<and> getProp s (js ''title'') = Some (JStr ti)
              \<and> getProp s (js ''overview'') = Some (JStr ov)
              \<and> getProp s (js ''reason'') = Some (JStr re)
              \<and> getProp s (js ''searchKeyword'') = Some (JStr kw)
              \<and> getProp s (js ''type'') = Some (JStr (suggestion.type (suggestion S)))
              \<and> (suggestion.type (suggestion S) = js ''movie''
                  \<or> suggestion.type (suggestion S) = js ''series'')
              \<and> call_toString rt (js ''s.year.toString'') (getProp s (js ''year''))
                  = Inr (suggestion.year (suggestion S))
              \<and> suggestion.title (suggestion S) = trim ti
              \<and> suggestion.overview (suggestion S) = trim ov
              \<and> suggestion.reason (suggestion S) = trim re
              \<and> suggestion.searchKeyword (suggestion S) = trim kw))\<close>
  proof (cases ?rep)
    case (Rejected x)
    with no' obtain e where x: "x = AnError e"
      by (cases x) auto
    have "fst (generateSuggestion rt ep w) = Inr (suggestionFailure (handleError e))"
      using Rejected x by (simp add: generateSuggestion_result handleCaught_def)
    with Rejected x norm show ?thesis
      by (auto simp: suggestionFailure_def emptySuggestion_def intro!: exI [of _ e])
  next
    case (Resolved resp)
    show ?thesis
    proof (cases "truthyStr (replyText resp)")
      case False
      then have r: "resp = None \<or> resp = Some (Response None) \<or> resp = Some (Response (Some []))"
        by (simp add: empty_reply)
      have "fst (generateSuggestion rt ep w)
             = Inr (suggestionFailure (js ''Empty response from Gemini API''))"
        using Resolved False by (simp add: generateSuggestion_result)
      with Resolved r own norm show ?thesis
        by (auto simp: suggestionFailure_def emptySuggestion_def handleError_own_messages
              intro!: exI [of _ "Thrown Error (js ''Empty response from Gemini API'')"])
    next
      case True
      then obtain t where t: "resp = Some (Response (Some t))" "t \<noteq> []"
        by (auto simp: full_reply)
      then have tt: "tplStr (replyText resp) = t"
        by (simp add: tplStr_def replyText_def)
      show ?thesis
      proof (cases "parseSuggestionResponse rt t")
        case (Inl e)
        have "fst (generateSuggestion rt ep w) = Inr (suggestionFailure (handleError e))"
          using Resolved True tt Inl by (simp add: generateSuggestion_result)
        with Resolved t Inl norm show ?thesis
          by (auto simp: suggestionFailure_def emptySuggestion_def intro!: exI [of _ e])
      next
        case (Inr r)
        have S: "fst (generateSuggestion rt ep w) =
                   Inr \<lparr>suggestion = r, AISuggestionResponse.success = True,
                        AISuggestionResponse.error = None\<rparr>"
          using Resolved True tt Inr by (simp add: generateSuggestion_result)
        from parseSuggestion_Inr [OF Inr] obtain s ti ov re kw where
          p: "JSON_parse rt (cleanResponse t) = Inr s \<and> sixTruthy rt s
           \<and> getProp s (js ''title'') = Some (JStr ti)
           \<and> getProp s (js ''overview'') = Some (JStr ov)
           \<and> getProp s (js ''reason'') = Some (JStr re)
           \<and> getProp s (js ''searchKeyword'') = Some (JStr kw)
           \<and> getProp s (js ''type'') = Some (JStr (suggestion.type r))
           \<and> (suggestion.type r = js ''movie'' \<or> suggestion.type r = js ''series'')
           \<and> call_toString rt (js ''s.year.toString'') (getProp s (js ''year''))
               = Inr (suggestion.year r)
           \<and> suggestion.title r = trim ti \<and> suggestion.overview r = trim ov
           \<and> suggestion.reason r = trim re \<and> suggestion.searchKeyword r = trim kw"
          by blast
        have ex: "\<exists>t s ti ov re kw.
              ?rep = Resolved (Some (Response (Some t)))
              \<and> t \<noteq> []
              \<and> JSON_parse rt (cleanResponse t) = Inr s \<and> sixTruthy rt s
              \<and> getProp s (js ''title'') = Some (JStr ti)
              \<and> getProp s (js ''overview'') = Some (JStr ov)
              \<and> getProp s (js ''reason'') = Some (JStr re)
              \<and> getProp s (js ''searchKeyword'') = Some (JStr kw)
              \<and> getProp s (js ''type'') = Some (JStr (suggestion.type r))
              \<and> (suggestion.type r = js ''movie'' \<or> suggestion.type r = js ''series'')
              \<and> call_toString rt (js ''s.year.toString'') (getProp s (js ''year''))
                  = Inr (suggestion.year r)
              \<and> suggestion.title r = trim ti
              \<and> suggestion.overview r = trim ov
              \<and> suggestion.reason r = trim re
              \<and> suggestion.searchKeyword r = trim kw"
          using Resolved t p
          by (intro exI [of _ t] exI [of _ s] exI [of _ ti] exI [of _ ov] exI [of _ re]
                exI [of _ kw]) simp
        show ?thesis
          unfolding S using ex by simp
      qed
    qed
  qed
  from facts sugg show ?thesis by blast
qed

text \<open>
  The theorem on the reference engine and the endpoint that fails twice before it
  replies: the facts succeed on the third attempt, the suggestion, which is not retried,
  fails with the overload message.
\<close>

theorem results_invariant_witness:
  \<open>fst (generateFacts refEngine flaky inception freshWorld) =
      Inr \<lparr>facts = [js ''The film was shot in six countries.''], AIFactsResponse.success = True,
           AIFactsResponse.error = None\<rparr>
   \<and> fst (generateSuggestion refEngine flaky freshWorld) =
      Inr \<lparr>suggestion =
             \<lparr>suggestion.title = [], suggestion.year = [], suggestion.type = js ''movie'',
              suggestion.overview = [], suggestion.reason = [], suggestion.searchKeyword = []\<rparr>,
           AISuggestionResponse.success = False,
           AISuggestionResponse.error =
             Some (js ''The AI service is temporarily overloaded. Please try again shortly.'')\<rparr>\<close>
proof -
  have ep: "\<forall>n req. flaky n req \<noteq> Rejected NotAnError"
    by (simp add: flaky_def)
  have title: "truthyStr (orElse (MovieData.name inception) (MovieData.title inception))"
    by (simp add: inception_def noMovieData_def orElse_def truthyStr_def js_def)
  have t: \<open>truthyStr (Some (js ''["The film was shot in six countries."]''))\<close>
    by (simp add: truthyStr_def js_def)
  have f: \<open>finalOutcome flaky (factsRequest refEngine inception) freshWorld
            = Resolved (Some (Response (Some (js ''["The film was shot in six countries."]''))))\<close>
    by (simp add: finalOutcome_def attempt_def flaky_def freshWorld_def)
  have F: \<open>fst (generateFacts refEngine flaky inception freshWorld) =
      Inr \<lparr>facts = [js ''The film was shot in six countries.''], AIFactsResponse.success = True,
           AIFactsResponse.error = None\<rparr>\<close>
    by (simp add: generateFacts_result title f replyText_def tplStr_def t
          parseFacts_flaky_reply factsSuccess_def)
  have h: "handleError (Thrown Error (js ''503 Service Unavailable''))
           = js ''The AI service is temporarily overloaded. Please try again shortly.''"
    by (simp add: handleError_def string_eval)
  have S: \<open>fst (generateSuggestion refEngine flaky freshWorld) =
      Inr \<lparr>suggestion =
             \<lparr>suggestion.title = [], suggestion.year = [], suggestion.type = js ''movie'',
              suggestion.overview = [], suggestion.reason = [], suggestion.searchKeyword = []\<rparr>,
           AISuggestionResponse.success = False,
           AISuggestionResponse.error =
             Some (js ''The AI service is temporarily overloaded. Please try again shortly.'')\<rparr>\<close>
    by (simp add: generateSuggestion_result flaky_def freshWorld_def suggestionFailure_def
          emptySuggestion_def handleCaught_def h)
  from results_invariant [OF ep, of refEngine inception freshWorld] F S
  show ?thesis by simp
qed

text \<open>
  The claim as it was stated fails in five ways. A numbered line whose marker takes most
  of it gives a successful result with a fact of 3 characters. An endpoint that rejects
  with an error of empty message gives a failure whose error is the empty string. A reply
  whose title is one blank and whose year is the empty array gives a successful suggestion
  with an empty title and an empty year. The placeholder suggestion of a failure has the
  type \<open>movie\<close>. And when the endpoint rejects with a value that is no error, the \<open>catch\<close>
  block raises a \<open>TypeError\<close> and both operations reject.
\<close>

theorem short_fact_counterexample:
  \<open>fst (generateFacts refEngine (replying (js ''1.                  abc'')) inception freshWorld) =
      Inr \<lparr>facts = [js ''abc''], AIFactsResponse.success = True, AIFactsResponse.error = None\<rparr>
   \<and> length (js ''abc'') = 3
   \<and> fst (generateFacts refEngine silent inception freshWorld) =
      Inr \<lparr>facts = [], AIFactsResponse.success = False, AIFactsResponse.error = Some []\<rparr>
   \<and> fst (generateSuggestion refEngine
           (replying (js ''{"title":" ","year":[],"type":"movie","overview":"o","reason":"r","searchKeyword":"k"}''))
           freshWorld) =
      Inr \<lparr>suggestion =
             \<lparr>suggestion.title = [], suggestion.year = [], suggestion.type = js ''movie'',
              suggestion.overview = js ''o'', suggestion.reason = js ''r'',
              suggestion.searchKeyword = js ''k''\<rparr>,
           AISuggestionResponse.success = True, AISuggestionResponse.error = None\<rparr>
   \<and> fst (generateSuggestion refEngine silent freshWorld) =
      Inr \<lparr>suggestion =
             \<lparr>suggestion.title = [], suggestion.year = [], suggestion.type = js ''movie'',
              suggestion.overview = [], suggestion.reason = [], suggestion.searchKeyword = []\<rparr>,
           AISuggestionResponse.success = False, AISuggestionResponse.error = Some []\<rparr>
   \<and> fst (generateFacts refEngine rude inception freshWorld) =
      Inl (Thrown TypeError (js ''Cannot read properties of undefined''))
   \<and> fst (generateSuggestion refEngine rude freshWorld) =
      Inl (Thrown TypeError (js ''Cannot read properties of undefined''))\<close>
proof -
  have title: "truthyStr (orElse (MovieData.name inception) (MovieData.title inception))"
    by (simp add: inception_def noMovieData_def orElse_def truthyStr_def js_def)
  have t: \<open>truthyStr (Some (js ''1.                  abc''))\<close>
    \<open>truthyStr (Some (js ''{"title":" ","year":[],"type":"movie","overview":"o","reason":"r","searchKeyword":"k"}''))\<close>
    by (simp_all add: truthyStr_def js_def)
  have 1: \<open>fst (generateFacts refEngine (replying (js ''1.                  abc'')) inception freshWorld) =
      Inr \<lparr>facts = [js ''abc''], AIFactsResponse.success = True, AIFactsResponse.error = None\<rparr>\<close>
    by (simp add: generateFacts_result title finalOutcome_def attempt_def replying_def
          replyText_def tplStr_def t parse_short_fact factsSuccess_def)
  have e: "handleError (Thrown Error []) = []"
    by (simp add: handleError_def string_eval)
  have 2: \<open>fst (generateFacts refEngine silent inception freshWorld) =
      Inr \<lparr>facts = [], AIFactsResponse.success = False, AIFactsResponse.error = Some []\<rparr>\<close>
    by (simp add: generateFacts_result title finalOutcome_def attempt_def silent_def
          factsFailure_def handleCaught_def e)
  have 3: \<open>fst (generateSuggestion refEngine
           (replying (js ''{"title":" ","year":[],"type":"movie","overview":"o","reason":"r","searchKeyword":"k"}''))
           freshWorld) =
      Inr \<lparr>suggestion =
             \<lparr>suggestion.title = [], suggestion.year = [], suggestion.type = js ''movie'',
              suggestion.overview = js ''o'', suggestion.reason = js ''r'',
              suggestion.searchKeyword = js ''k''\<rparr>,
           AISuggestionResponse.success = True, AISuggestionResponse.error = None\<rparr>\<close>
    by (simp add: generateSuggestion_result replying_def replyText_def tplStr_def t
          parse_blank_suggestion)
  have 4: \<open>fst (generateSuggestion refEngine silent freshWorld) =
      Inr \<lparr>suggestion =
             \<lparr>suggestion.title = [], suggestion.year = [], suggestion.type = js ''movie'',
              suggestion.overview = [], suggestion.reason = [], suggestion.searchKeyword = []\<rparr>,
           AISuggestionResponse.success = False, AISuggestionResponse.error = Some []\<rparr>\<close>
    by (simp add: generateSuggestion_result silent_def suggestionFailure_def emptySuggestion_def
          handleCaught_def e)
  have m: "TypeError_message refEngine (CannotRead (js ''error.message.toLowerCase''))
           = js ''Cannot read properties of undefined''"
    by (simp add: refEngine_def refTypeErrorMessage_def)
  have 5: \<open>fst (generateFacts refEngine rude inception freshWorld) =
      Inl (Thrown TypeError (js ''Cannot read properties of undefined''))\<close>
    by (simp add: generateFacts_result title finalOutcome_def attempt_def rude_def
          handleCaught_def m)
  have 6: \<open>fst (generateSuggestion refEngine rude freshWorld) =
      Inl (Thrown TypeError (js ''Cannot read properties of undefined''))\<close>
    by (simp add: generateSuggestion_result rude_def handleCaught_def m)
  from 1 2 3 4 5 6 show ?thesis by (simp add: js_def)
qed

section \<open>The year of the prompt\<close>

text \<open>
  Claim C2 does not hold of the code. The year is \<open>Unknown\<close> when the date is absent or
  empty and the year of the date when it can be read (lemma \<open>releaseYear_rendering\<close>), but
  a date that cannot be read gives the year \<open>NaN\<close>, which the template prints as it is
  (lemma \<open>invalid_date_year\<close>). Here is \<open>generateFacts\<close> on a film whose release date is
  \<open>not a date\<close>: the one prompt it sends carries \<open>(NaN)\<close> where the claim has \<open>(Unknown)\<close>.
\<close>

theorem invalid_date_renders_NaN:
  \<open>Date_getFullYear refEngine (js ''not a date'') = None
   \<and> tplYear (releaseYear refEngine badDate) = js ''NaN''
   \<and> goalLine refEngine badDate =
       js ''GOAL: Generate Top 10 most exciting and factual information about "Inception" (NaN) - a Movie.''
   \<and> sentPrompts refEngine (replying (js ''[]'')) badDate freshWorld
       = [createMoviePrompt refEngine badDate]
   \<and> includesStr (createMoviePrompt refEngine badDate)
       (js ''GOAL: Generate Top 10 most exciting and factual information about "Inception" (NaN) - a Movie.'')\<close>
proof -
  have y: "Date_getFullYear refEngine (js ''not a date'') = None"
    by (simp add: refEngine_def refDateYear_def js_def)
  have r: "tplYear (releaseYear refEngine badDate) = js ''NaN''"
    using y by (simp add: releaseYear_rendering badDate_def noMovieData_def isTV_def
                  truthyStr_def js_def)
  have g: \<open>goalLine refEngine badDate =
       js ''GOAL: Generate Top 10 most exciting and factual information about "Inception" (NaN) - a Movie.''\<close>
    unfolding goalLine_def r
    by (simp add: badDate_def noMovieData_def isTV_def promptTitle_def truthyStr_def tplStr_def
          js_def)
  have s: \<open>sentPrompts refEngine (replying (js ''[]'')) badDate freshWorld
       = [createMoviePrompt refEngine badDate]\<close>
    by (simp add: sentPrompts_eq attempts_def attempt_def replying_def badDate_def
          noMovieData_def orElse_def truthyStr_def js_def)
  from goalLine_in_prompt [of refEngine badDate] y r g s show ?thesis
    by simp
qed

section \<open>The label of the subject\<close>

text \<open>
  Claim C3. For a record with \<open>name\<close> set and no \<open>title\<close>, every facts prompt that
  \<open>generateFacts\<close> sends is the prompt of \<open>createMoviePrompt\<close>, whose goal line names the
  subject by its name, with the year of its first air date, as a \<open>TV Series\<close>; for a record
  with \<open>title\<close> set and no \<open>name\<close>, the goal line names it by its title, with the year of
  its release date, as a \<open>Movie\<close>. A prompt is sent whenever the name, or the title, is not
  the empty string; for the empty string \<open>generateFacts\<close> stops at the title check and
  there is no prompt.
\<close>

theorem facts_prompt_label:
  \<open>(MovieData.name data = Some n \<and> MovieData.title data = None \<longrightarrow>
      (n \<noteq> [] \<longrightarrow> sentPrompts rt ep data w \<noteq> [])
      \<and> (\<forall>p \<in> set (sentPrompts rt ep data w).
            p = createMoviePrompt rt data
            \<and> includesStr p (goalLine rt data)
            \<and> goalLine rt data =
                js ''GOAL: Generate Top 10 most exciting and factual information about "''
                @ n @ js ''" ('' @ tplYear (yearOf rt (first_air_date data))
                @ js '') - a TV Series.''))
   \<and> (MovieData.title data = Some t \<and> MovieData.name data = None \<longrightarrow>
      (t \<noteq> [] \<longrightarrow> sentPrompts rt ep data w \<noteq> [])
      \<and> (\<forall>p \<in> set (sentPrompts rt ep data w).
            p = createMoviePrompt rt data
            \<and> includesStr p (goalLine rt data)
            \<and> goalLine rt data =
                js ''GOAL: Generate Top 10 most exciting and factual information about "''
                @ t @ js ''" ('' @ tplYear (yearOf rt (release_date data))
                @ js '') - a Movie.''))\<close>
proof (intro conjI impI)
  assume a: "MovieData.name data = Some n \<and> MovieData.title data = None"
  show "sentPrompts rt ep data w \<noteq> []" if "n \<noteq> []"
    using a that attempts_pos [of ep "factsRequest rt data" w]
    by (simp add: sentPrompts_eq orElse_def truthyStr_def)
  show \<open>\<forall>p \<in> set (sentPrompts rt ep data w).
            p = createMoviePrompt rt data
            \<and> includesStr p (goalLine rt data)
            \<and> goalLine rt data =
                js ''GOAL: Generate Top 10 most exciting and factual information about "''
                @ n @ js ''" ('' @ tplYear (yearOf rt (first_air_date data))
                @ js '') - a TV Series.''\<close>
  proof -
    have g: \<open>goalLine rt data =
                js ''GOAL: Generate Top 10 most exciting and factual information about "''
                @ n @ js ''" ('' @ tplYear (yearOf rt (first_air_date data))
                @ js '') - a TV Series.''\<close>
      if "n \<noteq> []"
      using a that
      by (simp add: goalLine_def isTV_def promptTitle_def releaseYear_def tplStr_def
            truthyStr_def js_def)
    show ?thesis
      using a g goalLine_in_prompt [of rt data]
      by (auto simp: sentPrompts_eq orElse_def truthyStr_def split: if_splits)
  qed
next
  assume a: "MovieData.title data = Some t \<and> MovieData.name data = None"
  show "sentPrompts rt ep data w \<noteq> []" if "t \<noteq> []"
    using a that attempts_pos [of ep "factsRequest rt data" w]
    by (simp add: sentPrompts_eq orElse_def truthyStr_def)
  show \<open>\<forall>p \<in> set (sentPrompts rt ep data w).
            p = createMoviePrompt rt data
            \<and> includesStr p (goalLine rt data)
            \<and> goalLine rt data =
                js ''GOAL: Generate Top 10 most exciting and factual information about "''
                @ t @ js ''" ('' @ tplYear (yearOf rt (release_date data))
                @ js '') - a Movie.''\<close>
  proof -
    have g: \<open>goalLine rt data =
                js ''GOAL: Generate Top 10 most exciting and factual information about "''
                @ t @ js ''" ('' @ tplYear (yearOf rt (release_date data))
                @ js '') - a Movie.''\<close>
      using a
      by (simp add: goalLine_def isTV_def promptTitle_def releaseYear_def tplStr_def
            truthyStr_def js_def)
    show ?thesis
      using a g goalLine_in_prompt [of rt data]
      by (auto simp: sentPrompts_eq orElse_def truthyStr_def split: if_splits)
  qed
qed

text \<open>The theorem at a series and at a film.\<close>

theorem facts_prompt_label_witness:
  \<open>sentPrompts refEngine (replying (js ''[]'')) dark freshWorld = [createMoviePrompt refEngine dark]
   \<and> goalLine refEngine dark =
       js ''GOAL: Generate Top 10 most exciting and factual information about "Dark" (2017) - a TV Series.''
   \<and> sentPrompts refEngine (replying (js ''[]'')) inception freshWorld
       = [createMoviePrompt refEngine inception]
   \<and> goalLine refEngine inception =
       js ''GOAL: Generate Top 10 most exciting and factual information about "Inception" (2010) - a Movie.''\<close>
proof -
  have d: "MovieData.name dark = Some (js ''Dark'') \<and> MovieData.title dark = None"
    "first_air_date dark = Some (js ''2017-12-01'')"
    by (simp_all add: dark_def noMovieData_def)
  have i: "MovieData.title inception = Some (js ''Inception'') \<and> MovieData.name inception = None"
    "release_date inception = Some (js ''2010-07-16'')"
    by (simp_all add: inception_def noMovieData_def)
  from facts_prompt_label [where data = dark and rt = refEngine and n = "js ''Dark''"
         and ep = \<open>replying (js ''[]'')\<close> and w = freshWorld and t = "[]"]
    d sent_dark year_2017
  have 1: \<open>goalLine refEngine dark =
       js ''GOAL: Generate Top 10 most exciting and factual information about "''
       @ js ''Dark'' @ js ''" ('' @ js ''2017'' @ js '') - a TV Series.''\<close>
    by simp
  from facts_prompt_label [where data = inception and rt = refEngine and t = "js ''Inception''"
         and ep = \<open>replying (js ''[]'')\<close> and w = freshWorld and n = "[]"]
    i sent_inception year_2010
  have 2: \<open>goalLine refEngine inception =
       js ''GOAL: Generate Top 10 most exciting and factual information about "''
       @ js ''Inception'' @ js ''" ('' @ js ''2010'' @ js '') - a Movie.''\<close>
    by simp
  show ?thesis
    using sent_dark sent_inception 1 2 by (simp add: js_def)
qed

section \<open>Facts from a JSON array\<close>

text \<open>
  Claim C4, as amended. When the cleaned reply parses as a JSON array,
  \<open>parseFactsResponse\<close> returns those of its elements that are strings of more than 10
  characters after trimming (the strings themselves, untrimmed), in their order, repeats
  included, and of these the first 10. When every element is such a string, these are the
  first 10 elements.
\<close>

theorem parseFacts_json_array:
  "JSON_parse rt (cleanResponse t) = Inr (JArr fs) \<Longrightarrow>
     parseFactsResponse rt t = take 10 [s. JStr s \<leftarrow> fs, 10 < length (trim s)]
     \<and> ((\<forall>f \<in> set fs. isFact f) \<longrightarrow> parseFactsResponse rt t = map stringOf (take 10 fs))"
  by (simp add: parseFactsResponse_def facts_of_array [symmetric] take_map)

text \<open>The theorem at the fenced array of two facts.\<close>

theorem parseFacts_json_array_witness:
  \<open>parseFactsResponse refEngine
      (js ''```json'' @ LF @ js ''["a valid fact here","another one too"]'' @ LF @ js ''```'')
    = [js ''a valid fact here'', js ''another one too'']\<close>
proof -
  have p: \<open>JSON_parse refEngine (cleanResponse
             (js ''```json'' @ LF @ js ''["a valid fact here","another one too"]'' @ LF @ js ''```''))
           = Inr (JArr [JStr (js ''a valid fact here''), JStr (js ''another one too'')])\<close>
    by (simp add: facts_eval parser_eval string_eval LF_def)
  have a: "\<forall>f \<in> set [JStr (js ''a valid fact here''), JStr (js ''another one too'')]. isFact f"
    by (simp add: isFact_def string_eval)
  from parseFacts_json_array [OF p] a show ?thesis
    by (simp add: stringOf_def isFact_def string_eval LF_def)
qed

text \<open>An array of fifteen facts gives the first ten.\<close>

lemma parseFacts_fifteen:
  \<open>parseFactsResponse refEngine
     (js ''["fact number 01","fact number 02","fact number 03","fact number 04","fact number 05","fact number 06","fact number 07","fact number 08","fact number 09","fact number 10","fact number 11","fact number 12","fact number 13","fact number 14","fact number 15"]'')
   = [js ''fact number 01'', js ''fact number 02'', js ''fact number 03'', js ''fact number 04'',
      js ''fact number 05'', js ''fact number 06'', js ''fact number 07'', js ''fact number 08'',
      js ''fact number 09'', js ''fact number 10'']\<close>
  by (simp add: facts_eval parser_eval string_eval)

text \<open>
  The claim as it was stated fails: a string of 11 characters, 8 of them trailing blanks,
  is longer than 10 characters and is not returned.
\<close>

theorem trailing_blanks_counterexample:
  \<open>JSON_parse refEngine (cleanResponse (js ''["abc        "]'')) = Inr (JArr [JStr (js ''abc        '')])
   \<and> 10 < length (js ''abc        '')
   \<and> parseFactsResponse refEngine (js ''["abc        "]'') = []\<close>
  by (simp add: facts_eval parser_eval string_eval)

section \<open>Facts from the lines of the reply\<close>




section \<open>Parsing a suggestion\<close>

text \<open>
  Claim C6, as amended. When the cleaned reply parses as JSON, \<open>parseSuggestionResponse\<close>
  succeeds exactly when the six fields are truthy, the type is \<open>movie\<close> or \<open>series\<close>, the
  title, the overview, the reason and the search keyword are strings, and the year has a
  string form. It then returns the four strings trimmed, the type, and the year as a
  string: a number printed, a string as it is. It fails with \<open>Invalid suggestion format\<close>
  when one of the six is missing or falsy, and with \<open>Invalid suggestion type\<close> when the six
  are truthy and the type is another value. When the reply does not parse, it fails with
  the \<open>SyntaxError\<close> of the parser; there is no fallback.
\<close>

theorem parseSuggestion_outcomes:
  "(JSON_parse rt (cleanResponse t) = Inr s \<longrightarrow>
      ((\<not> isl (parseSuggestionResponse rt t)) \<longleftrightarrow>
           sixTruthy rt s \<and> validType s
           \<and> isString (getProp s (js ''title'')) \<and> yearPrints rt s
           \<and> isString (getProp s (js ''overview'')) \<and> isString (getProp s (js ''reason''))
           \<and> isString (getProp s (js ''searchKeyword'')))
      \<and> (sixTruthy rt s \<and> validType s
          \<and> getProp s (js ''title'') = Some (JStr ti)
          \<and> getProp s (js ''type'') = Some (JStr ty)
          \<and> getProp s (js ''overview'') = Some (JStr ov)
          \<and> getProp s (js ''reason'') = Some (JStr re)
          \<and> getProp s (js ''searchKeyword'') = Some (JStr kw)
          \<longrightarrow> (getProp s (js ''year'') = Some (JNum n) \<longrightarrow>
                 parseSuggestionResponse rt t =
                   Inr \<lparr>suggestion.title = trim ti, suggestion.year = Number_toString rt n,
                        suggestion.type = ty, suggestion.overview = trim ov,
                        suggestion.reason = trim re, suggestion.searchKeyword = trim kw\<rparr>)
            \<and> (getProp s (js ''year'') = Some (JStr ys) \<longrightarrow>
                 parseSuggestionResponse rt t =
                   Inr \<lparr>suggestion.title = trim ti, suggestion.year = ys,
                        suggestion.type = ty, suggestion.overview = trim ov,
                        suggestion.reason = trim re, suggestion.searchKeyword = trim kw\<rparr>))
      \<and> (\<not> sixTruthy rt s \<longrightarrow>
            parseSuggestionResponse rt t = Inl (Thrown Error (js ''Invalid suggestion format'')))
      \<and> (sixTruthy rt s \<and> \<not> validType s \<longrightarrow>
            parseSuggestionResponse rt t = Inl (Thrown Error (js ''Invalid suggestion type''))))
   \<and> (JSON_parse rt (cleanResponse t) = Inl m \<longrightarrow>
        parseSuggestionResponse rt t = Inl (Thrown SyntaxError m))"
proof (intro conjI impI)
  assume p: "JSON_parse rt (cleanResponse t) = Inr s"
  show "(\<not> isl (parseSuggestionResponse rt t)) \<longleftrightarrow>
           sixTruthy rt s \<and> validType s
           \<and> isString (getProp s (js ''title'')) \<and> yearPrints rt s
           \<and> isString (getProp s (js ''overview'')) \<and> isString (getProp s (js ''reason''))
           \<and> isString (getProp s (js ''searchKeyword''))"
    by (rule parseSuggestion_success_iff [OF p])
next
  assume p: "JSON_parse rt (cleanResponse t) = Inr s"
    and f: "sixTruthy rt s \<and> validType s
          \<and> getProp s (js ''title'') = Some (JStr ti)
          \<and> getProp s (js ''type'') = Some (JStr ty)
          \<and> getProp s (js ''overview'') = Some (JStr ov)
          \<and> getProp s (js ''reason'') = Some (JStr re)
          \<and> getProp s (js ''searchKeyword'') = Some (JStr kw)"
    and y: "getProp s (js ''year'') = Some (JNum n)"
  show "parseSuggestionResponse rt t =
          Inr \<lparr>suggestion.title = trim ti, suggestion.year = Number_toString rt n,
               suggestion.type = ty, suggestion.overview = trim ov,
               suggestion.reason = trim re, suggestion.searchKeyword = trim kw\<rparr>"
    using f y by (simp add: parseSuggestion_unfold [OF p] call_trim_def call_toString_simps
                    stringOf_def)
next
  assume p: "JSON_parse rt (cleanResponse t) = Inr s"
    and f: "sixTruthy rt s \<and> validType s
          \<and> getProp s (js ''title'') = Some (JStr ti)
          \<and> getProp s (js ''type'') = Some (JStr ty)
          \<and> getProp s (js ''overview'') = Some (JStr ov)
          \<and> getProp s (js ''reason'') = Some (JStr re)
          \<and> getProp s (js ''searchKeyword'') = Some (JStr kw)"
    and y: "getProp s (js ''year'') = Some (JStr ys)"
  show "parseSuggestionResponse rt t =
          Inr \<lparr>suggestion.title = trim ti, suggestion.year = ys,
               suggestion.type = ty, suggestion.overview = trim ov,
               suggestion.reason = trim re, suggestion.searchKeyword = trim kw\<rparr>"
    using f y by (simp add: parseSuggestion_unfold [OF p] call_trim_def call_toString_simps
                    stringOf_def)
next
  assume p: "JSON_parse rt (cleanResponse t) = Inr s" and "\<not> sixTruthy rt s"
  then show "parseSuggestionResponse rt t = Inl (Thrown Error (js ''Invalid suggestion format''))"
    by (simp add: parseSuggestion_unfold [OF p])
next
  assume p: "JSON_parse rt (cleanResponse t) = Inr s" and "sixTruthy rt s \<and> \<not> validType s"
  then show "parseSuggestionResponse rt t = Inl (Thrown Error (js ''Invalid suggestion type''))"
    by (simp add: parseSuggestion_unfold [OF p])
next
  assume "JSON_parse rt (cleanResponse t) = Inl m"
  then show "parseSuggestionResponse rt t = Inl (Thrown SyntaxError m)"
    by (simp add: parseSuggestionResponse_def)
qed

text \<open>
  The theorem at the suggestion of the specification, whose year 2020 becomes the string
  \<open>2020\<close>, at a suggestion of type \<open>book\<close>, and at a reply cut short.
\<close>

theorem parseSuggestion_outcomes_witness:
  \<open>parseSuggestionResponse refEngine
      (js ''{"title":"X","year":2020,"type":"movie","overview":"o","reason":"r","searchKeyword":"k"}'')
     = Inr \<lparr>suggestion.title = js ''X'', suggestion.year = js ''2020'',
            suggestion.type = js ''movie'', suggestion.overview = js ''o'',
            suggestion.reason = js ''r'', suggestion.searchKeyword = js ''k''\<rparr>
   \<and> parseSuggestionResponse refEngine
      (js ''{"title":"X","year":2020,"type":"book","overview":"o","reason":"r","searchKeyword":"k"}'')
     = Inl (Thrown Error (js ''Invalid suggestion type''))
   \<and> parseSuggestionResponse refEngine (js ''{"title":"X","year":2020,'')
     = Inl (Thrown SyntaxError (js ''Unexpected token in JSON''))\<close>
proof -
  have x: "sixTruthy refEngine suggestionX \<and> validType suggestionX"
    by (simp add: sixTruthy_def validType_def suggestionX_def refEngine_def refNumberTruthy_def
          js_def)
  have b: "sixTruthy refEngine suggestionBook \<and> \<not> validType suggestionBook"
    by (simp add: sixTruthy_def validType_def suggestionBook_def refEngine_def
          refNumberTruthy_def js_def)
  have g: "getProp suggestionX (js ''title'') = Some (JStr (js ''X''))"
    "getProp suggestionX (js ''type'') = Some (JStr (js ''movie''))"
    "getProp suggestionX (js ''overview'') = Some (JStr (js ''o''))"
    "getProp suggestionX (js ''reason'') = Some (JStr (js ''r''))"
    "getProp suggestionX (js ''searchKeyword'') = Some (JStr (js ''k''))"
    "getProp suggestionX (js ''year'') = Some (JNum (Dec 2020 0))"
    by (simp_all add: suggestionX_def js_def)
  have n: "Number_toString refEngine (Dec 2020 0) = js ''2020''"
    by (simp add: refEngine_def refNumberToString_def showInt_def digits.simps js_def)
  have tr: "trim (js ''X'') = js ''X''" "trim (js ''o'') = js ''o''" "trim (js ''r'') = js ''r''"
    "trim (js ''k'') = js ''k''"
    by (simp_all add: string_eval)
  from parseSuggestion_outcomes [where rt = refEngine and s = suggestionX
         and t = \<open>js ''{"title":"X","year":2020,"type":"movie","overview":"o","reason":"r","searchKeyword":"k"}''\<close>
         and ti = "js ''X''" and ty = "js ''movie''" and ov = "js ''o''" and re = "js ''r''"
         and kw = "js ''k''" and n = "Dec 2020 0"]
       parseSuggestion_outcomes [where rt = refEngine and s = suggestionBook
         and t = \<open>js ''{"title":"X","year":2020,"type":"book","overview":"o","reason":"r","searchKeyword":"k"}''\<close>]
       parseSuggestion_outcomes [where rt = refEngine and m = "js ''Unexpected token in JSON''"
         and t = \<open>js ''{"title":"X","year":2020,''\<close>]
  show ?thesis
    by (simp add: parse_suggestionX parse_suggestionBook parse_truncated x b g n tr)
qed

text \<open>
  The claim as it was stated fails: with the number 5 as title, the six fields are truthy
  and the type is \<open>movie\<close>, and \<open>s.title.trim()\<close> raises a \<open>TypeError\<close>.
\<close>

theorem numeric_title_counterexample:
  \<open>JSON_parse refEngine (cleanResponse (js ''{"title":5,"year":2020,"type":"movie","overview":"o","reason":"r","searchKeyword":"k"}''))
     = Inr suggestionFive
   \<and> sixTruthy refEngine suggestionFive \<and> validType suggestionFive
   \<and> parseSuggestionResponse refEngine
        (js ''{"title":5,"year":2020,"type":"movie","overview":"o","reason":"r","searchKeyword":"k"}'')
     = Inl (Thrown TypeError (js ''s.title.trim is not a function''))\<close>
proof -
  have x: "sixTruthy refEngine suggestionFive \<and> validType suggestionFive"
    by (simp add: sixTruthy_def validType_def suggestionFive_def refEngine_def
          refNumberTruthy_def js_def)
  have "parseSuggestionResponse refEngine
        (js ''{\"title\":5,\"year\":2020,\"type\":\"movie\",\"overview\":\"o\",\"reason\":\"r\",\"searchKeyword\":\"k\"}'')
     = Inl (Thrown TypeError (js ''s.title.trim is not a function''))"
    using x
    by (simp add: parseSuggestion_unfold [OF parse_suggestionFive] call_trim_def)
       (simp add: suggestionFive_def refEngine_def refTypeErrorMessage_def js_def)
  with x parse_suggestionFive show ?thesis by simp
qed

section \<open>Error normalisation\<close>

text \<open>
  Claim C7, as amended. \<open>handleError\<close> classifies a message by the needles it contains in
  any letter case, the first group that matches winning: \<open>api key\<close> or \<open>authentication\<close>
  give the authentication message, \<open>quota\<close> or \<open>rate limit\<close> the rate-limit message,
  \<open>overloaded\<close> or \<open>unavailable\<close> the overload message, \<open>blocked\<close> or \<open>safety\<close> the
  content-filter message, and a message with none of them comes back as it is. A message
  that contains \<open>Quota exceeded\<close> in any letter case gets the rate-limit message when it
  contains neither \<open>api key\<close> nor \<open>authentication\<close>.
\<close>

theorem handleError_classification:
  "handleError (Thrown knd m) =
     (if containsIgnoringCase m (js ''api key'') \<or> containsIgnoringCase m (js ''authentication'')
      then js ''AI service authentication failed. Please check configuration.''
      else if containsIgnoringCase m (js ''quota'') \<or> containsIgnoringCase m (js ''rate limit'')
      then js ''AI service rate limit exceeded. Please try again later.''
      else if containsIgnoringCase m (js ''overloaded'') \<or> containsIgnoringCase m (js ''unavailable'')
      then js ''The AI service is temporarily overloaded. Please try again shortly.''
      else if containsIgnoringCase m (js ''blocked'') \<or> containsIgnoringCase m (js ''safety'')
      then js ''Content was blocked by safety filters.''
      else m)
   \<and> (containsIgnoringCase m (js ''Quota exceeded'')
        \<and> \<not> containsIgnoringCase m (js ''api key'')
        \<and> \<not> containsIgnoringCase m (js ''authentication'')
      \<longrightarrow> handleError (Thrown knd m) = js ''AI service rate limit exceeded. Please try again later.'')"
proof -
  have main: "handleError (Thrown knd m) =
     (if containsIgnoringCase m (js ''api key'') \<or> containsIgnoringCase m (js ''authentication'')
      then js ''AI service authentication failed. Please check configuration.''
      else if containsIgnoringCase m (js ''quota'') \<or> containsIgnoringCase m (js ''rate limit'')
      then js ''AI service rate limit exceeded. Please try again later.''
      else if containsIgnoringCase m (js ''overloaded'') \<or> containsIgnoringCase m (js ''unavailable'')
      then js ''The AI service is temporarily overloaded. Please try again shortly.''
      else if containsIgnoringCase m (js ''blocked'') \<or> containsIgnoringCase m (js ''safety'')
      then js ''Content was blocked by safety filters.''
      else m)"
    by (simp add: handleError_def Let_def containsIgnoringCase_includes lower_literals)
  have "js ''Quota exceeded'' = [] @ js ''Quota'' @ js '' exceeded''"
    by (simp add: js_def)
  then have "containsIgnoringCase m (js ''Quota exceeded'') \<Longrightarrow> containsIgnoringCase m (js ''Quota'')"
    using containsIgnoringCase_part by metis
  moreover have "toLowerCase (js ''Quota'') = toLowerCase (js ''quota'')"
    by (simp add: toLowerCase_def lowerUnit_def js_def)
  ultimately have q: "containsIgnoringCase m (js ''Quota exceeded'') \<Longrightarrow> containsIgnoringCase m (js ''quota'')"
    by (simp add: containsIgnoringCase_def)
  show ?thesis using main q by simp
qed

text \<open>The theorem at a message in capitals.\<close>

theorem handleError_classification_witness:
  "handleError (Thrown Error (js ''429 QUOTA EXCEEDED for project''))
     = js ''AI service rate limit exceeded. Please try again later.''"
proof -
  have "containsIgnoringCase (js ''429 QUOTA EXCEEDED for project'') (js ''Quota exceeded'')"
    and "\<not> containsIgnoringCase (js ''429 QUOTA EXCEEDED for project'') (js ''api key'')"
    and "\<not> containsIgnoringCase (js ''429 QUOTA EXCEEDED for project'') (js ''authentication'')"
    by (simp_all add: containsIgnoringCase_includes js_def toLowerCase_def lowerUnit_def startsWith_def)
  with handleError_classification [of Error "js ''429 QUOTA EXCEEDED for project''"]
  show ?thesis by blast
qed

text \<open>
  The claim as it was stated fails: a message with \<open>Quota exceeded\<close> that also names an
  API key is classified by the first group and gets the authentication message.
\<close>

theorem quota_message_counterexample:
  "containsIgnoringCase (js ''Quota exceeded for this API key'') (js ''Quota exceeded'')
   \<and> handleError (Thrown Error (js ''Quota exceeded for this API key''))
       = js ''AI service authentication failed. Please check configuration.''
   \<and> handleError (Thrown Error (js ''Quota exceeded for this API key''))
       \<noteq> js ''AI service rate limit exceeded. Please try again later.''"
  by (simp add: containsIgnoringCase_includes handleError_def js_def toLowerCase_def lowerUnit_def startsWith_def)

section \<open>Retrying\<close>



section \<open>The title check\<close>

text \<open>
  Claim C9. For a record with neither \<open>title\<close> nor \<open>name\<close>, \<open>generateFacts\<close> returns the
  failure result with the error \<open>Title is required\<close>, and sends no request to the endpoint.
\<close>

theorem generateFacts_title_required:
  "MovieData.title data = None \<Longrightarrow> MovieData.name data = None \<Longrightarrow>
     fst (generateFacts rt ep data w) =
       Inr \<lparr>facts = [], AIFactsResponse.success = False,
            AIFactsResponse.error = Some (js ''Title is required'')\<rparr>
     \<and> requests (snd (generateFacts rt ep data w)) = requests w"
  by (simp add: generateFacts_result generateFacts_requests factsFailure_def orElse_def
        truthyStr_def)

text \<open>The theorem at the empty record.\<close>

theorem generateFacts_title_required_witness:
  "fst (generateFacts refEngine flaky noMovieData freshWorld) =
       Inr \<lparr>facts = [], AIFactsResponse.success = False,
            AIFactsResponse.error = Some (js ''Title is required'')\<rparr>
     \<and> requests (snd (generateFacts refEngine flaky noMovieData freshWorld)) = []"
  using generateFacts_title_required [of noMovieData refEngine flaky freshWorld]
  by (simp add: noMovieData_def freshWorld_def)

section \<open>A reply that is JSON but no array\<close>

text \<open>
  Claim C10. When the cleaned reply parses as JSON and the value is not an array,
  \<open>parseFactsResponse\<close> returns no facts, whatever the lines of the text are; so
  \<open>generateFacts\<close>, on such a reply, returns the failure result with the error
  \<open>No valid facts extracted\<close>.
\<close>

theorem parseFacts_non_array:
  "JSON_parse rt (cleanResponse t) = Inr v \<Longrightarrow> \<not> isArray v \<Longrightarrow>
     parseFactsResponse rt t = []
     \<and> (t \<noteq> [] \<and> truthyStr (orElse (MovieData.name data) (MovieData.title data))
          \<and> finalOutcome ep (factsRequest rt data) w = Resolved (Some (Response (Some t)))
        \<longrightarrow> fst (generateFacts rt ep data w) =
              Inr \<lparr>facts = [], AIFactsResponse.success = False,
                   AIFactsResponse.error = Some (js ''No valid facts extracted'')\<rparr>)"
proof -
  assume p: "JSON_parse rt (cleanResponse t) = Inr v" and a: "\<not> isArray v"
  have e: "parseFactsResponse rt t = []"
    using p a by (simp add: parseFactsResponse_def isArray_def split: json.splits)
  then show ?thesis
    by (simp add: generateFacts_result replyText_def truthyStr_def tplStr_def factsFailure_def)
qed

text \<open>
  The theorem at a reply that is one JSON string: a line of 47 characters, which the
  line-based extraction would have kept.
\<close>

theorem parseFacts_non_array_witness:
  \<open>parseFactsResponse refEngine (js ''"A JSON string, though not an array of facts."'') = []
   \<and> fst (generateFacts refEngine
            (replying (js ''"A JSON string, though not an array of facts."'')) inception freshWorld) =
        Inr \<lparr>facts = [], AIFactsResponse.success = False,
             AIFactsResponse.error = Some (js ''No valid facts extracted'')\<rparr>\<close>
proof -
  have p: \<open>JSON_parse refEngine (cleanResponse (js ''"A JSON string, though not an array of facts."''))
           = Inr (JStr (js ''A JSON string, though not an array of facts.''))\<close>
    by (simp add: facts_eval parser_eval string_eval)
  have a: "\<not> isArray (JStr (js ''A JSON string, though not an array of facts.''))"
    by (simp add: isArray_def)
  have t: \<open>js ''"A JSON string, though not an array of facts."'' \<noteq> []\<close>
    by (simp add: js_def)
  have title: "truthyStr (orElse (MovieData.name inception) (MovieData.title inception))"
    by (simp add: inception_def noMovieData_def orElse_def truthyStr_def js_def)
  have f: \<open>finalOutcome (replying (js ''"A JSON string, though not an array of facts."''))
             (factsRequest refEngine inception) freshWorld
           = Resolved (Some (Response (Some (js ''"A JSON string, though not an array of facts."''))))\<close>
    by (simp add: finalOutcome_def attempt_def replying_def)
  from parseFacts_non_array [OF p a, where data = inception and w = freshWorld
         and ep = \<open>replying (js ''"A JSON string, though not an array of facts."'')\<close>] t title f
  show ?thesis by simp
qed

end
